theory Spec2Isabelle
  imports Main "HOL-Library.AList"
begin

section \<open>JavaScript values\<close>

text \<open>
  Configuration objects and compiler options are untyped JavaScript values in the source
  (\<^verbatim>\<open>any\<close>, \<^verbatim>\<open>ts.CompilerOptions\<close>). An object is a finite map from
  property names to values; reading a property that is absent yields \<^verbatim>\<open>undefined\<close>.
  Numbers are restricted to integers: no number of a configuration is inspected beyond its
  truthiness.
\<close>

datatype json =
    JUndefined
  | JNull
  | JBool bool
  | JNum int
  | JStr string
  | JArr "json list"
  | JObj "string \<Rightarrow> json option"

text \<open>Truthiness, as used by \<^verbatim>\<open>if (x)\<close> and \<^verbatim>\<open>x || y\<close>.\<close>

fun truthy :: "json \<Rightarrow> bool" where
  "truthy JUndefined = False"
| "truthy JNull = False"
| "truthy (JBool b) = b"
| "truthy (JNum n) = (n \<noteq> 0)"
| "truthy (JStr s) = (s \<noteq> [])"
| "truthy (JArr xs) = True"
| "truthy (JObj m) = True"

text \<open>The \<^verbatim>\<open>typeof\<close> operator.\<close>

fun typeof :: "json \<Rightarrow> string" where
  "typeof JUndefined = ''undefined''"
| "typeof JNull = ''object''"
| "typeof (JBool b) = ''boolean''"
| "typeof (JNum n) = ''number''"
| "typeof (JStr s) = ''string''"
| "typeof (JArr xs) = ''object''"
| "typeof (JObj m) = ''object''"

fun isArray :: "json \<Rightarrow> bool" where
  "isArray (JArr xs) = True"
| "isArray v = False"

text \<open>The comparisons \<^verbatim>\<open>v === undefined\<close> and \<^verbatim>\<open>v === null\<close>.\<close>

fun isUndefined :: "json \<Rightarrow> bool" where
  "isUndefined JUndefined = True"
| "isUndefined v = False"

fun isNull :: "json \<Rightarrow> bool" where
  "isNull JNull = True"
| "isNull v = False"

text \<open>\<^verbatim>\<open>list.includes(v)\<close> for a list of strings: strict equality, so only a string is found.\<close>

fun arrayIncludes :: "string list \<Rightarrow> json \<Rightarrow> bool" where
  "arrayIncludes list (JStr s) = (s \<in> set list)"
| "arrayIncludes list v = False"

text \<open>Decimal rendering of a natural number, as template literals render it.\<close>

fun digit :: "nat \<Rightarrow> char" where
  "digit n = char_of (48 + n)"

fun show_nat :: "nat \<Rightarrow> string" where
  "show_nat n = (if n < 10 then [digit n] else show_nat (n div 10) @ [digit (n mod 10)])"

declare show_nat.simps [simp del]

text \<open>
  The own enumerable properties that object spread \<^verbatim>\<open>{...v}\<close> copies: those of
  an object, the indices of an array or of a string, nothing for the other values.
\<close>

fun spread :: "json \<Rightarrow> (string \<Rightarrow> json option)" where
  "spread (JObj m) = m"
| "spread (JArr xs) = map_of (zip (map show_nat [0..<length xs]) xs)"
| "spread (JStr s) = map_of (zip (map show_nat [0..<length s]) (map (\<lambda>c. JStr [c]) s))"
| "spread v = Map.empty"

text \<open>
  Property read \<^verbatim>\<open>v.k\<close> for the property names this program reads
  (\<^verbatim>\<open>compilerOptions\<close>, \<^verbatim>\<open>include\<close>, \<^verbatim>\<open>exclude\<close> and option names):
  none of them is an inherited property of an array or a string.
\<close>

definition get :: "json \<Rightarrow> string \<Rightarrow> json" where
  "get v k = (case spread v k of None \<Rightarrow> JUndefined | Some x \<Rightarrow> x)"

section \<open>Paths: the POSIX flavour of Node's \<^verbatim>\<open>path\<close> module\<close>

text \<open>
  The program calls \<^verbatim>\<open>path.resolve\<close>, \<^verbatim>\<open>path.join\<close>,
  \<^verbatim>\<open>path.dirname\<close>, \<^verbatim>\<open>path.basename\<close> and \<^verbatim>\<open>path.extname\<close>.
  They are functions of the platform, written here after Node's \<^verbatim>\<open>path.posix\<close>:
  the character loops of the original become list functions with the same results.
\<close>

fun splitOn :: "char \<Rightarrow> string \<Rightarrow> string list" where
  "splitOn sep [] = [[]]"
| "splitOn sep (c # cs) =
     (if c = sep then [] # splitOn sep cs
      else (case splitOn sep cs of w # ws \<Rightarrow> (c # w) # ws | [] \<Rightarrow> [[c]]))"

fun joinWith :: "string \<Rightarrow> string list \<Rightarrow> string" where
  "joinWith sep [] = []"
| "joinWith sep [x] = x"
| "joinWith sep (x # y # ys) = x @ sep @ joinWith sep (y # ys)"

text \<open>
  One segment of \<^verbatim>\<open>normalizeString\<close>: empty segments and \<^verbatim>\<open>.\<close> are dropped,
  \<^verbatim>\<open>..\<close> removes the segment before it, or is kept when nothing is left to remove
  and the path may climb above its root.
\<close>

definition normalizeSegment :: "bool \<Rightarrow> string list \<Rightarrow> string \<Rightarrow> string list" where
  "normalizeSegment allowAboveRoot res seg =
     (if seg = [] \<or> seg = ''.'' then res
      else if seg = ''..'' then
        (if res \<noteq> [] \<and> last res \<noteq> ''..'' then butlast res
         else if allowAboveRoot then res @ [''..'']
         else res)
      else res @ [seg])"

definition normalizeString :: "string \<Rightarrow> bool \<Rightarrow> string" where
  "normalizeString path allowAboveRoot =
     joinWith ''/'' (foldl (normalizeSegment allowAboveRoot) [] (splitOn CHR ''/'' path))"

text \<open>Well-formed segments: not empty, and without a slash.\<close>

definition segments_ok :: "string list \<Rightarrow> bool" where
  "segments_ok segs = (\<forall>s \<in> set segs. s \<noteq> [] \<and> CHR ''/'' \<notin> set s)"

definition isAbsolute :: "string \<Rightarrow> bool" where
  "isAbsolute path = (path \<noteq> [] \<and> hd path = CHR ''/'')"

text \<open>
  \<^verbatim>\<open>path.resolve(path)\<close> with one argument; \<open>cwd\<close> is \<^verbatim>\<open>process.cwd()\<close>.
\<close>

definition resolve :: "string \<Rightarrow> string \<Rightarrow> string" where
  "resolve cwd path =
     (let r1 = (if path = [] then [] else path @ ''/'');
          r2 = (if isAbsolute path \<or> cwd = [] then r1 else cwd @ ''/'' @ r1);
          resolvedAbsolute = (isAbsolute path \<or> isAbsolute cwd);
          resolvedPath = normalizeString r2 (\<not> resolvedAbsolute)
      in if resolvedAbsolute then ''/'' @ resolvedPath
         else if resolvedPath \<noteq> [] then resolvedPath else ''.'')"

definition normalize :: "string \<Rightarrow> string" where
  "normalize path =
     (if path = [] then ''.''
      else let trailingSeparator = (last path = CHR ''/'');
               p = normalizeString path (\<not> isAbsolute path)
           in if p = [] then
                (if isAbsolute path then ''/'' else if trailingSeparator then ''./'' else ''.'')
              else (if isAbsolute path then ''/'' else [])
                   @ p @ (if trailingSeparator then ''/'' else []))"

text \<open>\<^verbatim>\<open>path.join(a, b)\<close>: the non-empty arguments, joined by a slash and normalised.\<close>

definition join :: "string \<Rightarrow> string \<Rightarrow> string" where
  "join a b =
     (if a = [] \<and> b = [] then ''.''
      else if a = [] then normalize b
      else if b = [] then normalize a
      else normalize (a @ ''/'' @ b))"

text \<open>
  \<^verbatim>\<open>path.dirname\<close>: scanning from the end down to index 1, trailing slashes are
  skipped, then the last component; the slash found there ends the result.
\<close>

definition dirname :: "string \<Rightarrow> string" where
  "dirname path =
     (if path = [] then ''.''
      else let r = dropWhile (\<lambda>c. c \<noteq> CHR ''/'')
                     (dropWhile (\<lambda>c. c = CHR ''/'') (rev (tl path)))
           in if r = [] then (if isAbsolute path then ''/'' else ''.'')
              else if isAbsolute path \<and> length r = 1 then ''//''
              else take (length r) path)"

text \<open>The last component of a path, its trailing slashes aside, and those slashes.\<close>

definition lastComponent :: "string \<Rightarrow> string" where
  "lastComponent path =
     rev (takeWhile (\<lambda>c. c \<noteq> CHR ''/'') (dropWhile (\<lambda>c. c = CHR ''/'') (rev path)))"

definition trailingSlashes :: "string \<Rightarrow> string" where
  "trailingSlashes path = takeWhile (\<lambda>c. c = CHR ''/'') (rev path)"

text \<open>
  \<^verbatim>\<open>path.extname\<close>: from the last dot of the last component, unless there is no dot,
  the dot is the component's first character, or the component is \<^verbatim>\<open>..\<close>.
\<close>

definition extname :: "string \<Rightarrow> string" where
  "extname path =
     (let base = lastComponent path;
          ext = rev (takeWhile (\<lambda>c. c \<noteq> CHR ''.'') (rev base));
          pre = length base - length ext - 1
      in if CHR ''.'' \<notin> set base \<or> pre = 0 \<or> base = ''..'' then []
         else CHR ''.'' # ext)"

definition isSuffixOf :: "string \<Rightarrow> string \<Rightarrow> bool" where
  "isSuffixOf s t = (length s \<le> length t \<and> drop (length t - length s) t = s)"

text \<open>
  \<^verbatim>\<open>path.basename(path, suffix)\<close>. The suffix is removed from the last component when
  the component ends with it and is not the suffix itself. When the component is shorter
  than the suffix and matches its end, Node's loop leaves its end index unset and the
  result runs to the end of the path, trailing slashes included.
\<close>

definition basename :: "string \<Rightarrow> string \<Rightarrow> string" where
  "basename path suffix =
     (let base = lastComponent path
      in if suffix \<noteq> [] \<and> length suffix \<le> length path then
           (if suffix = path then []
            else if isSuffixOf suffix base then
              (if base = suffix then base else take (length base - length suffix) base)
            else if isSuffixOf base suffix then base @ trailingSlashes path
            else base)
         else base)"

section \<open>The file system (utils/file.ts)\<close>

text \<open>
  A file system maps a normalised absolute path to a file with its text or to a directory.
  Every path the program hands to the file system comes from \<^verbatim>\<open>path.resolve\<close>,
  or from \<^verbatim>\<open>path.join\<close> and \<^verbatim>\<open>path.dirname\<close> applied to such a path.
  A rejected promise or a thrown exception is an \<^verbatim>\<open>Error\<close> with its message.
\<close>

datatype node = File string | Dir

type_synonym fs = "string \<Rightarrow> node option"

datatype exn = JsError string

fun errorMessage :: "exn \<Rightarrow> string" where
  "errorMessage (JsError m) = m"

definition fileExists :: "fs \<Rightarrow> string \<Rightarrow> bool" where
  "fileExists fs filePath = (fs filePath \<noteq> None)"

definition readFile :: "fs \<Rightarrow> string \<Rightarrow> exn + string" where
  "readFile fs filePath =
     (case fs filePath of
        Some (File data) \<Rightarrow> Inr data
      | Some Dir \<Rightarrow> Inl (JsError ''EISDIR: illegal operation on a directory, read'')
      | None \<Rightarrow> Inl (JsError (''ENOENT: no such file or directory, open '' @ filePath)))"

text \<open>The measure under which \<^verbatim>\<open>path.dirname\<close> descends until it is stationary.\<close>

definition pathMeasure :: "string \<Rightarrow> nat" where
  "pathMeasure path = (if path = ''.'' then 0 else length path + 2)"

lemma dropWhile_twice_shorter:
  assumes "dropWhile (\<lambda>c. \<not> P c) (dropWhile P xs) \<noteq> []"
  shows "length (dropWhile (\<lambda>c. \<not> P c) (dropWhile P xs)) < length xs"
proof -
  define ys where "ys = dropWhile P xs"
  from assms have ne: "ys \<noteq> []" unfolding ys_def by (metis dropWhile.simps(1))
  then have "\<not> P (hd ys)" unfolding ys_def by (rule hd_dropWhile)
  with ne have "dropWhile (\<lambda>c. \<not> P c) ys = dropWhile (\<lambda>c. \<not> P c) (tl ys)"
    by (cases ys) auto
  then have "length (dropWhile (\<lambda>c. \<not> P c) ys) = length (dropWhile (\<lambda>c. \<not> P c) (tl ys))"
    by simp
  also have "\<dots> \<le> length (tl ys)" by (rule length_dropWhile_le)
  also have "\<dots> < length ys" using ne by (cases ys) auto
  also have "\<dots> \<le> length xs" unfolding ys_def by (rule length_dropWhile_le)
  finally show ?thesis unfolding ys_def .
qed

lemma dirname_descends:
  assumes "dirname path \<noteq> path"
  shows "pathMeasure (dirname path) < pathMeasure path"
proof (cases "path = []")
  case True
  then show ?thesis by (simp add: dirname_def pathMeasure_def)
next
  case False
  define r where "r = dropWhile (\<lambda>c. c \<noteq> CHR ''/'') (dropWhile (\<lambda>c. c = CHR ''/'') (rev (tl path)))"
  have dn: "dirname path = (if r = [] then (if isAbsolute path then ''/'' else ''.'')
              else if isAbsolute path \<and> length r = 1 then ''//''
              else take (length r) path)"
    using False unfolding dirname_def r_def Let_def by (simp only: if_False)
  show ?thesis
  proof (cases "r = []")
    case True
    show ?thesis
    proof (cases "isAbsolute path")
      case abs: True
      then have "dirname path = ''/''" using dn True by simp
      moreover have "2 \<le> length path" using abs assms \<open>dirname path = ''/''\<close>
        by (cases path; cases "tl path") (auto simp: isAbsolute_def)
      ultimately show ?thesis by (auto simp: pathMeasure_def)
    next
      case nabs: False
      then have "dirname path = ''.''" using dn True by simp
      then show ?thesis using assms by (auto simp: pathMeasure_def)
    qed
  next
    case ne: False
    have "length r < length (rev (tl path))"
      using ne dropWhile_twice_shorter [of "\<lambda>c. c = CHR ''/''" "rev (tl path)"]
      unfolding r_def by simp
    then have len: "length r + 2 \<le> length path" using False by (cases path) auto
    have a: "pathMeasure (take (length r) path) < pathMeasure path"
      using len by (auto simp: pathMeasure_def)
    have b: "pathMeasure ''//'' < pathMeasure path"
      using len ne by (cases r) (auto simp: pathMeasure_def)
    show ?thesis using a b ne by (simp add: dn)
  qed
qed

text \<open>
  \<^verbatim>\<open>findTsConfig\<close>: walk from \<open>startDir\<close> towards the root and return the first
  \<^verbatim>\<open>tsconfig.json\<close> found; the directory that is its own parent is not looked at.
\<close>

function findTsConfig :: "fs \<Rightarrow> string \<Rightarrow> string option" where
  "findTsConfig fs currentDir =
     (if currentDir \<noteq> dirname currentDir then
        (let tsConfigPath = join currentDir ''tsconfig.json''
         in if fileExists fs tsConfigPath then Some tsConfigPath
            else findTsConfig fs (dirname currentDir))
      else None)"
  by pat_completeness auto
termination
  by (relation "measure (\<lambda>(fs, d). pathMeasure d)") (simp_all add: dirname_descends)

declare findTsConfig.simps [simp del]

text \<open>
  The directory and its ancestors, nearest first, as \<^verbatim>\<open>fs.mkdir\<close> with
  \<^verbatim>\<open>recursive: true\<close> visits them.
\<close>

function ancestors :: "string \<Rightarrow> string list" where
  "ancestors dir = (if dir \<noteq> dirname dir then dir # ancestors (dirname dir) else [dir])"
  by pat_completeness auto
termination
  by (relation "measure pathMeasure") (simp_all add: dirname_descends)

declare ancestors.simps [simp del]

text \<open>
  \<^verbatim>\<open>writeFile\<close>: create the missing directories above the file, then write the whole
  text. It is rejected when a file stands where a directory is needed, when the path is
  a directory, or when the operating system refuses the write (\<open>eacces\<close>: permissions,
  a read-only medium). The directories created before a rejected write remain.
\<close>

definition isRegularFile :: "fs \<Rightarrow> string \<Rightarrow> bool" where
  "isRegularFile fs p = (case fs p of Some (File data) \<Rightarrow> True | _ \<Rightarrow> False)"

definition mkdirRecursive :: "fs \<Rightarrow> string \<Rightarrow> exn + fs" where
  "mkdirRecursive fs dir =
     (if \<exists>a \<in> set (ancestors dir). isRegularFile fs a
        then Inl (JsError (''ENOTDIR: not a directory, mkdir '' @ dir))
      else Inr (\<lambda>p. if p \<in> set (ancestors dir) \<and> fs p = None then Some Dir else fs p))"

definition writeFile :: "(string \<Rightarrow> bool) \<Rightarrow> fs \<Rightarrow> string \<Rightarrow> string \<Rightarrow> (exn + unit) \<times> fs" where
  "writeFile eacces fs filePath content =
     (case mkdirRecursive fs (dirname filePath) of
        Inl mkdirError \<Rightarrow> (Inl mkdirError, fs)
      | Inr fs1 \<Rightarrow>
          if fs1 filePath = Some Dir
            then (Inl (JsError ''EISDIR: illegal operation on a directory, open''), fs1)
          else if eacces filePath
            then (Inl (JsError (''EACCES: permission denied, open '' @ filePath)), fs1)
          else (Inr (), fs1(filePath \<mapsto> File content)))"

text \<open>
  \<^verbatim>\<open>getOutputPath\<close>. An absent and an empty \<open>outputDir\<close> are both falsy. Without an
  output directory the regular expression \<^verbatim>\<open>/\.(ts|tsx)$/\<close> replaces a final
  \<^verbatim>\<open>.ts\<close> or \<^verbatim>\<open>.tsx\<close> by \<^verbatim>\<open>.js\<close>; a path with neither ending is returned
  as it is.
\<close>

definition endsWith :: "string \<Rightarrow> string \<Rightarrow> bool" where
  "endsWith s suffix = isSuffixOf suffix s"

definition replaceTsExtension :: "string \<Rightarrow> string" where
  "replaceTsExtension inputPath =
     (if endsWith inputPath ''.ts'' then take (length inputPath - 3) inputPath @ ''.js''
      else if endsWith inputPath ''.tsx'' then take (length inputPath - 4) inputPath @ ''.js''
      else inputPath)"

definition getOutputPath :: "string \<Rightarrow> string option \<Rightarrow> string" where
  "getOutputPath inputPath outputDir =
     (case outputDir of
        Some dir \<Rightarrow>
          if dir \<noteq> [] then
            (let fileName = basename inputPath (extname inputPath) @ ''.js''
             in join dir fileName)
          else replaceTsExtension inputPath
      | None \<Rightarrow> replaceTsExtension inputPath)"

section \<open>Diagnostics (utils/diagnostics.ts)\<close>

text \<open>
  The members of the engine's numeric enum \<^verbatim>\<open>ts.DiagnosticCategory\<close>. At run time a
  category is a number, so a value outside the four members is representable; the
  \<^verbatim>\<open>default\<close> branch of \<^verbatim>\<open>formatDiagnostic\<close> is about those.
\<close>

type_synonym DiagnosticCategory = nat

definition Warning :: DiagnosticCategory where "Warning = 0"
definition Error :: DiagnosticCategory where "Error = 1"
definition Suggestion :: DiagnosticCategory where "Suggestion = 2"
definition Message :: DiagnosticCategory where "Message = 3"

lemmas DiagnosticCategory_defs = Warning_def Error_def Suggestion_def Message_def

datatype DiagnosticMessageChain =
  DiagnosticMessageChain string "DiagnosticMessageChain list"

datatype MessageText = Plain string | Chain DiagnosticMessageChain

record SourceFile =
  fileName :: string
  sourceText :: string

record Diagnostic =
  d_file :: "SourceFile option"
  d_start :: "nat option"
  d_messageText :: MessageText
  d_code :: nat
  d_category :: DiagnosticCategory

datatype severity = Sev_error | Sev_warning | Sev_info

text \<open>The structured record every result carries for one diagnostic.\<close>

record FormattedDiagnostic =
  file' :: string
  line :: nat
  column :: nat
  message :: string
  code :: string
  severity :: severity

text \<open>
  The two functions of the engine that diagnostics are formatted with:
  \<^verbatim>\<open>ts.getLineAndCharacterOfPosition\<close> and
  \<^verbatim>\<open>ts.flattenDiagnosticMessageText\<close> (always called with the newline separator).
\<close>

record positions =
  getLineAndCharacterOfPosition :: "SourceFile \<Rightarrow> nat \<Rightarrow> nat \<times> nat"
  flattenDiagnosticMessageText :: "MessageText \<Rightarrow> string"

text \<open>
  The position computed by \<^verbatim>\<open>formatDiagnostic\<close> and by the two inline mappings of
  the compiler: one-based when the diagnostic has a file and a start, \<open>(0, 0)\<close> otherwise.
\<close>

definition lineAndColumn :: "('a positions_scheme) \<Rightarrow> Diagnostic \<Rightarrow> nat \<times> nat" where
  "lineAndColumn ts diagnostic =
     (case (d_file diagnostic, d_start diagnostic) of
        (Some f, Some s) \<Rightarrow>
          (let lineAndChar = getLineAndCharacterOfPosition ts f s
           in (fst lineAndChar + 1, snd lineAndChar + 1))
      | _ \<Rightarrow> (0, 0))"

text \<open>\<^verbatim>\<open>diagnostic.file?.fileName || fallback\<close>: an empty file name is falsy.\<close>

definition fileNameOr :: "Diagnostic \<Rightarrow> string \<Rightarrow> string" where
  "fileNameOr diagnostic fallback =
     (case d_file diagnostic of
        None \<Rightarrow> fallback
      | Some f \<Rightarrow> if fileName f \<noteq> [] then fileName f else fallback)"

definition formatDiagnostic :: "('a positions_scheme) \<Rightarrow> Diagnostic \<Rightarrow> FormattedDiagnostic" where
  "formatDiagnostic ts diagnostic =
     (let file = fileNameOr diagnostic ''unknown'';
          lc = lineAndColumn ts diagnostic;
          severity =
            (if d_category diagnostic = Warning then Sev_warning
             else if d_category diagnostic = Suggestion \<or> d_category diagnostic = Message
               then Sev_info
             else Sev_error)
      in \<lparr> file' = file, line = fst lc, column = snd lc,
           message = flattenDiagnosticMessageText ts (d_messageText diagnostic),
           code = ''TS'' @ show_nat (d_code diagnostic),
           severity = severity \<rparr>)"

record DiagnosticSummary =
  errorCount :: nat
  warningCount :: nat
  infoCount :: nat

text \<open>The body of the \<^verbatim>\<open>forEach\<close> of \<^verbatim>\<open>getDiagnosticSummary\<close>: a switch with no default.\<close>

definition countDiagnostic :: "Diagnostic \<Rightarrow> DiagnosticSummary \<Rightarrow> DiagnosticSummary" where
  "countDiagnostic diagnostic summary =
     (if d_category diagnostic = Error
        then summary\<lparr>errorCount := errorCount summary + 1\<rparr>
      else if d_category diagnostic = Warning
        then summary\<lparr>warningCount := warningCount summary + 1\<rparr>
      else if d_category diagnostic = Suggestion \<or> d_category diagnostic = Message
        then summary\<lparr>infoCount := infoCount summary + 1\<rparr>
      else summary)"

definition getDiagnosticSummary :: "Diagnostic list \<Rightarrow> DiagnosticSummary" where
  "getDiagnosticSummary diagnostics =
     fold countDiagnostic diagnostics \<lparr> errorCount = 0, warningCount = 0, infoCount = 0 \<rparr>"

text \<open>
  The mapping written inline in \<^verbatim>\<open>compileSingleFile\<close> (the file name falls back
  to the compiled file) and in \<^verbatim>\<open>compileProject\<close> (it falls back to
  \<^verbatim>\<open>'unknown'\<close>): the severity is a two-way conditional on the category.
\<close>

definition compileDiagnostic :: "('a positions_scheme) \<Rightarrow> string \<Rightarrow> Diagnostic \<Rightarrow> FormattedDiagnostic" where
  "compileDiagnostic ts fallback diagnostic =
     (let file = fileNameOr diagnostic fallback;
          lc = lineAndColumn ts diagnostic
      in \<lparr> file' = file, line = fst lc, column = snd lc,
           message = flattenDiagnosticMessageText ts (d_messageText diagnostic),
           code = ''TS'' @ show_nat (d_code diagnostic),
           severity = (if d_category diagnostic = Error then Sev_error else Sev_warning) \<rparr>)"

text \<open>
  \<^verbatim>\<open>formatDiagnostics\<close>: the three renderings. The JSON rendering is the platform's
  \<^verbatim>\<open>JSON.stringify\<close> (a parameter \<open>stringify\<close>) of the array of records. The
  icons are outside ASCII; they are written as their UTF-8 bytes.
\<close>

datatype formatOutput = Format_json | Format_text | Format_formatted

fun severityName :: "severity \<Rightarrow> string" where
  "severityName Sev_error = ''error''"
| "severityName Sev_warning = ''warning''"
| "severityName Sev_info = ''info''"

fun severityUpper :: "severity \<Rightarrow> string" where
  "severityUpper Sev_error = ''ERROR''"
| "severityUpper Sev_warning = ''WARNING''"
| "severityUpper Sev_info = ''INFO''"

fun getSeverityColor :: "severity \<Rightarrow> string" where
  "getSeverityColor Sev_error = CHR 0x1B # ''[31m''"
| "getSeverityColor Sev_warning = CHR 0x1B # ''[33m''"
| "getSeverityColor Sev_info = CHR 0x1B # ''[36m''"

fun getSeverityIcon :: "severity \<Rightarrow> string" where
  "getSeverityIcon Sev_error = [CHR 0xE2, CHR 0x9C, CHR 0x96]"
| "getSeverityIcon Sev_warning = [CHR 0xE2, CHR 0x9A, CHR 0xA0]"
| "getSeverityIcon Sev_info = [CHR 0xE2, CHR 0x84, CHR 0xB9]"

definition resetColor :: string where
  "resetColor = CHR 0x1B # ''[0m''"

definition diagnosticJson :: "FormattedDiagnostic \<Rightarrow> json" where
  "diagnosticJson d =
     JObj [''file'' \<mapsto> JStr (file' d), ''line'' \<mapsto> JNum (int (line d)),
           ''column'' \<mapsto> JNum (int (column d)), ''message'' \<mapsto> JStr (message d),
           ''code'' \<mapsto> JStr (code d), ''severity'' \<mapsto> JStr (severityName (severity d))]"

definition textLine :: "FormattedDiagnostic \<Rightarrow> string" where
  "textLine d =
     file' d @ '':'' @ show_nat (line d) @ '':'' @ show_nat (column d) @ '' - ''
       @ severityName (severity d) @ '': '' @ message d @ '' ('' @ code d @ '')''"

definition formattedBlock :: "FormattedDiagnostic \<Rightarrow> string" where
  "formattedBlock d =
     getSeverityIcon (severity d) @ '' '' @ getSeverityColor (severity d)
       @ severityUpper (severity d) @ resetColor @ '' in ''
       @ file' d @ '':'' @ show_nat (line d) @ '':'' @ show_nat (column d)
       @ [CHR 0x0A] @ ''  '' @ message d @ [CHR 0x0A] @ ''  Code: '' @ code d"

definition formatDiagnostics ::
  "('a positions_scheme) \<Rightarrow> (json \<Rightarrow> string) \<Rightarrow> Diagnostic list \<Rightarrow> formatOutput option \<Rightarrow> string"
where
  "formatDiagnostics ts stringify diagnostics format =
     (let formattedDiagnostics = map (formatDiagnostic ts) diagnostics
      in case format of
           Some Format_json \<Rightarrow> stringify (JArr (map diagnosticJson formattedDiagnostics))
         | Some Format_text \<Rightarrow> joinWith [CHR 0x0A] (map textLine formattedDiagnostics)
         | _ \<Rightarrow> joinWith [CHR 0x0A, CHR 0x0A] (map formattedBlock formattedDiagnostics))"

section \<open>The environment of a call\<close>

text \<open>
  The compiler engine, the process and the platform are outside the repository. One
  record carries what the handlers use of them: the engine's configuration reader and
  parser, its program builder (\<^verbatim>\<open>createProgram\<close> followed by
  \<^verbatim>\<open>getPreEmitDiagnostics\<close>, and by \<^verbatim>\<open>emit\<close>), its single-file transpiler,
  the working directory, the writes the operating system refuses, \<^verbatim>\<open>JSON.stringify\<close>,
  and the milliseconds the clock measures for the call.
\<close>

type_synonym CompilerOptions = "string \<Rightarrow> json option"

record ParsedCommandLine =
  pc_options :: CompilerOptions
  pc_fileNames :: "string list"
  pc_errors :: "Diagnostic list"

record TranspileOutput =
  outputText :: string
  sourceMapText :: "string option"
  tr_diagnostics :: "Diagnostic list option"

record EmitResult =
  emitSkipped :: bool
  em_diagnostics :: "Diagnostic list"

record env = positions +
  cwd :: string
  eacces :: "string \<Rightarrow> bool"
  readConfigFile :: "fs \<Rightarrow> string \<Rightarrow> Diagnostic + json"
  parseJsonConfigFileContent :: "fs \<Rightarrow> json \<Rightarrow> string \<Rightarrow> ParsedCommandLine"
  getPreEmitDiagnostics :: "fs \<Rightarrow> string list \<Rightarrow> CompilerOptions \<Rightarrow> Diagnostic list"
  emit :: "fs \<Rightarrow> string list \<Rightarrow> CompilerOptions \<Rightarrow> EmitResult \<times> fs"
  transpileModule :: "string \<Rightarrow> CompilerOptions \<Rightarrow> string \<Rightarrow> TranspileOutput"
  stringify :: "json \<Rightarrow> string"
  elapsed :: nat

text \<open>The members \<^verbatim>\<open>ts.ScriptTarget.ES2020\<close> and \<^verbatim>\<open>ts.ModuleKind.CommonJS\<close>.\<close>

definition ScriptTarget_ES2020 :: json where "ScriptTarget_ES2020 = JNum 7"
definition ModuleKind_CommonJS :: json where "ModuleKind_CommonJS = JNum 1"

text \<open>
  The options of the nearest \<^verbatim>\<open>tsconfig.json\<close> above a file, as all three
  single-file paths compute them: none when no file is found or when reading it fails.
\<close>

definition ambientOptions :: "env \<Rightarrow> fs \<Rightarrow> string \<Rightarrow> CompilerOptions option" where
  "ambientOptions ts fs filePath =
     (case findTsConfig fs (dirname filePath) of
        None \<Rightarrow> None
      | Some tsConfigPath \<Rightarrow>
          (case readConfigFile ts fs tsConfigPath of
             Inl configError \<Rightarrow> None
           | Inr config \<Rightarrow>
               Some (pc_options (parseJsonConfigFileContent ts fs config (dirname tsConfigPath)))))"

text \<open>
  \<^verbatim>\<open>${x}\<close> for a message text: a string as it is, a message chain as any object.
\<close>

fun messageTextString :: "MessageText \<Rightarrow> string" where
  "messageTextString (Plain s) = s"
| "messageTextString (Chain c) = ''[object Object]''"

section \<open>The type checker (handlers/typechecker.ts)\<close>

record TypeCheckOptions =
  tc_filePath :: string
  strict :: "bool option"
  includeDeclarations :: "bool option"

record DiagnosticOptions =
  dg_filePath :: string
  formatOutput :: "formatOutput option"

record TypeCheckResult =
  tc_success :: bool
  diagnostics :: "FormattedDiagnostic list"
  summary :: DiagnosticSummary

text \<open>
  The options \<^verbatim>\<open>checkSingleFile\<close> hands to \<^verbatim>\<open>ts.createProgram\<close>: the object
  literal built from the request is spread after the parsed configuration, so each of
  its four keys replaces the configuration's.
\<close>

definition checkSingleFile_compilerOptions :: "env \<Rightarrow> fs \<Rightarrow> TypeCheckOptions \<Rightarrow> CompilerOptions" where
  "checkSingleFile_compilerOptions ts fs options =
     (let filePath = resolve (cwd ts) (tc_filePath options);
          compilerOptions =
            [''target'' \<mapsto> ScriptTarget_ES2020,
             ''module'' \<mapsto> ModuleKind_CommonJS,
             ''strict'' \<mapsto> JBool (strict options = Some True),
             ''skipLibCheck'' \<mapsto> JBool (includeDeclarations options \<noteq> Some True)]
      in case ambientOptions ts fs filePath of
           None \<Rightarrow> compilerOptions
         | Some parsed \<Rightarrow> parsed ++ compilerOptions)"

definition checkSingleFile :: "env \<Rightarrow> fs \<Rightarrow> TypeCheckOptions \<Rightarrow> exn + TypeCheckResult" where
  "checkSingleFile ts fs options =
     (let filePath = resolve (cwd ts) (tc_filePath options);
          compilerOptions = checkSingleFile_compilerOptions ts fs options;
          diagnostics' = getPreEmitDiagnostics ts fs [filePath] compilerOptions;
          formattedDiagnostics = map (formatDiagnostic ts) diagnostics';
          summary' = getDiagnosticSummary diagnostics'
      in Inr \<lparr> tc_success = (errorCount summary' = 0),
               diagnostics = formattedDiagnostics,
               summary = summary' \<rparr>)"

definition checkProject :: "env \<Rightarrow> fs \<Rightarrow> TypeCheckOptions \<Rightarrow> exn + TypeCheckResult" where
  "checkProject ts fs options =
     (let projectPath = resolve (cwd ts) (tc_filePath options);
          tsConfigPath = join projectPath ''tsconfig.json''
      in if \<not> fileExists fs tsConfigPath
           then Inl (JsError (''tsconfig.json not found in '' @ projectPath))
         else case readConfigFile ts fs tsConfigPath of
           Inl configError \<Rightarrow>
             Inl (JsError (''Error reading tsconfig.json: ''
                            @ messageTextString (d_messageText configError)))
         | Inr config \<Rightarrow>
             (let parsedConfig = parseJsonConfigFileContent ts fs config projectPath
              in if pc_errors parsedConfig \<noteq> [] then
                   Inr \<lparr> tc_success = False,
                         diagnostics = map (formatDiagnostic ts) (pc_errors parsedConfig),
                         summary = getDiagnosticSummary (pc_errors parsedConfig) \<rparr>
                 else
                   (let o1 = (case strict options of
                                None \<Rightarrow> pc_options parsedConfig
                              | Some b \<Rightarrow> (pc_options parsedConfig)(''strict'' \<mapsto> JBool b));
                        o2 = (case includeDeclarations options of
                                None \<Rightarrow> o1
                              | Some b \<Rightarrow> o1(''skipLibCheck'' \<mapsto> JBool (\<not> b)));
                        diagnostics' = getPreEmitDiagnostics ts fs (pc_fileNames parsedConfig) o2;
                        formattedDiagnostics = map (formatDiagnostic ts) diagnostics';
                        summary' = getDiagnosticSummary diagnostics'
                    in Inr \<lparr> tc_success = (errorCount summary' = 0),
                             diagnostics = formattedDiagnostics,
                             summary = summary' \<rparr>)))"

text \<open>
  \<^verbatim>\<open>checkTypes\<close>. The resolved path has no trailing slash unless it is the root, and
  \<^verbatim>\<open>fileExists\<close> holds of directories as of files. Nothing is caught here: the
  exceptions are the caller's.
\<close>

definition checkTypes :: "env \<Rightarrow> fs \<Rightarrow> TypeCheckOptions \<Rightarrow> exn + TypeCheckResult" where
  "checkTypes ts fs options =
     (let filePath = resolve (cwd ts) (tc_filePath options)
      in if \<not> fileExists fs filePath
           then Inl (JsError (''File not found: '' @ filePath))
         else
           (let isFile = (\<not> endsWith filePath ''/'' \<and> fileExists fs filePath)
            in if isFile then checkSingleFile ts fs options
               else checkProject ts fs options))"

definition getDiagnostics_compilerOptions :: "env \<Rightarrow> fs \<Rightarrow> DiagnosticOptions \<Rightarrow> CompilerOptions" where
  "getDiagnostics_compilerOptions ts fs options =
     (let filePath = resolve (cwd ts) (dg_filePath options);
          compilerOptions =
            [''target'' \<mapsto> ScriptTarget_ES2020, ''module'' \<mapsto> ModuleKind_CommonJS]
      in case ambientOptions ts fs filePath of
           None \<Rightarrow> compilerOptions
         | Some parsed \<Rightarrow> parsed ++ compilerOptions)"

definition getDiagnostics :: "env \<Rightarrow> fs \<Rightarrow> DiagnosticOptions \<Rightarrow> exn + string" where
  "getDiagnostics ts fs options =
     (let filePath = resolve (cwd ts) (dg_filePath options)
      in if \<not> fileExists fs filePath
           then Inl (JsError (''File not found: '' @ filePath))
         else
           (let compilerOptions = getDiagnostics_compilerOptions ts fs options;
                diagnostics' = getPreEmitDiagnostics ts fs [filePath] compilerOptions
            in Inr (formatDiagnostics ts (stringify ts) diagnostics' (formatOutput options))))"

section \<open>The compiler (handlers/compiler.ts)\<close>

record CompileOptions =
  filePath :: "string option"
  projectPath :: "string option"
  outputDir :: "string option"
  sourceMap :: "bool option"
  watch :: "bool option"

record CompilationResult =
  success :: bool
  output' :: "string option"
  files :: "(string \<times> string) list option"
  errors :: "FormattedDiagnostic list option"
  duration :: "nat option"

text \<open>A string-valued request field is truthy when it is present and not empty.\<close>

fun truthyString :: "string option \<Rightarrow> bool" where
  "truthyString None = False"
| "truthyString (Some s) = (s \<noteq> [])"

text \<open>\<^verbatim>\<open>a || b\<close> on strings.\<close>

fun orElse :: "string option \<Rightarrow> string \<Rightarrow> string" where
  "orElse None d = d"
| "orElse (Some s) d = (if s \<noteq> [] then s else d)"

text \<open>\<^verbatim>\<open>path.resolve(x!)\<close>: an absent argument is a \<^verbatim>\<open>TypeError\<close> of the platform.\<close>

definition resolveArgument :: "string \<Rightarrow> string option \<Rightarrow> exn + string" where
  "resolveArgument dir arg =
     (case arg of
        None \<Rightarrow> Inl (JsError ''The \"paths[0]\" argument must be of type string. Received undefined'')
      | Some p \<Rightarrow> Inr (resolve dir p))"

text \<open>
  The options \<^verbatim>\<open>compileSingleFile\<close> hands to \<^verbatim>\<open>ts.transpileModule\<close>: the parsed
  configuration is assigned onto the object built from the request, so each key of the
  configuration replaces the request's.
\<close>

definition compileSingleFile_compilerOptions :: "env \<Rightarrow> fs \<Rightarrow> CompileOptions \<Rightarrow> string \<Rightarrow> CompilerOptions" where
  "compileSingleFile_compilerOptions ts fs options filePath' =
     (let compilerOptions =
            [''target'' \<mapsto> ScriptTarget_ES2020,
             ''module'' \<mapsto> ModuleKind_CommonJS,
             ''sourceMap'' \<mapsto> JBool (sourceMap options = Some True),
             ''outDir'' \<mapsto> (case outputDir options of None \<Rightarrow> JUndefined | Some d \<Rightarrow> JStr d)]
      in case ambientOptions ts fs filePath' of
           None \<Rightarrow> compilerOptions
         | Some parsed \<Rightarrow> compilerOptions ++ parsed)"

text \<open>The loop that writes the output files: it stops at the first rejected write.\<close>

fun writeFiles :: "(string \<Rightarrow> bool) \<Rightarrow> fs \<Rightarrow> (string \<times> string) list \<Rightarrow> (exn + unit) \<times> fs" where
  "writeFiles deny fs [] = (Inr (), fs)"
| "writeFiles deny fs (f # rest) =
     (case writeFile deny fs (fst f) (snd f) of
        (Inl writeError, fs1) \<Rightarrow> (Inl writeError, fs1)
      | (Inr u, fs1) \<Rightarrow> writeFiles deny fs1 rest)"

definition noErrors :: "FormattedDiagnostic list \<Rightarrow> bool" where
  "noErrors es = (filter (\<lambda>e. severity e = Sev_error) es = [])"

text \<open>
  The files \<^verbatim>\<open>compileSingleFile\<close> writes: the output, and the source map when the
  engine produced one and the request asked for it.
\<close>

definition outputFiles :: "TranspileOutput \<Rightarrow> string \<Rightarrow> CompileOptions \<Rightarrow> (string \<times> string) list" where
  "outputFiles result outputPath options =
     [(outputPath, outputText result)]
     @ (if truthyString (sourceMapText result) \<and> sourceMap options = Some True
          then [(outputPath @ ''.map'', orElse (sourceMapText result) [])]
        else [])"

definition compileSingleFile :: "env \<Rightarrow> fs \<Rightarrow> CompileOptions \<Rightarrow> (exn + CompilationResult) \<times> fs" where
  "compileSingleFile ts fs options =
     (case resolveArgument (cwd ts) (filePath options) of
        Inl typeError \<Rightarrow> (Inl typeError, fs)
      | Inr filePath' \<Rightarrow>
          if \<not> fileExists fs filePath'
            then (Inl (JsError (''File not found: '' @ filePath')), fs)
          else case readFile fs filePath' of
            Inl readError \<Rightarrow> (Inl readError, fs)
          | Inr sourceCode \<Rightarrow>
              (let compilerOptions = compileSingleFile_compilerOptions ts fs options filePath';
                   result = transpileModule ts sourceCode compilerOptions filePath';
                   errors' = (case tr_diagnostics result of
                               None \<Rightarrow> []
                             | Some ds \<Rightarrow> map (compileDiagnostic ts filePath') ds);
                   outputPath = getOutputPath filePath' (outputDir options);
                   files' = outputFiles result outputPath options
               in case writeFiles (eacces ts) fs files' of
                    (Inl writeError, fs1) \<Rightarrow> (Inl writeError, fs1)
                  | (Inr u, fs1) \<Rightarrow>
                      (Inr \<lparr> success = noErrors errors',
                              output' = Some (outputText result),
                              files = Some files',
                              errors = (if errors' \<noteq> [] then Some errors' else None),
                              duration = Some (elapsed ts) \<rparr>, fs1)))"

definition compileProject :: "env \<Rightarrow> fs \<Rightarrow> CompileOptions \<Rightarrow> (exn + CompilationResult) \<times> fs" where
  "compileProject ts fs options =
     (case resolveArgument (cwd ts) (projectPath options) of
        Inl typeError \<Rightarrow> (Inl typeError, fs)
      | Inr projectPath' \<Rightarrow>
          (let tsConfigPath = join projectPath' ''tsconfig.json''
           in if \<not> fileExists fs tsConfigPath
                then (Inl (JsError (''tsconfig.json not found in '' @ projectPath')), fs)
              else case readConfigFile ts fs tsConfigPath of
                Inl configError \<Rightarrow>
                  (Inl (JsError (''Error reading tsconfig.json: ''
                                  @ messageTextString (d_messageText configError))), fs)
              | Inr config \<Rightarrow>
                  (let parsedConfig = parseJsonConfigFileContent ts fs config projectPath'
                   in if pc_errors parsedConfig \<noteq> [] then
                        (Inr \<lparr> success = False, output' = None, files = None,
                                errors = Some (map (\<lambda>diagnostic.
                                  \<lparr> file' = tsConfigPath, line = 0, column = 0,
                                    message = flattenDiagnosticMessageText ts (d_messageText diagnostic),
                                    code = ''TS'' @ show_nat (d_code diagnostic),
                                    severity = Sev_error \<rparr>) (pc_errors parsedConfig)),
                                duration = Some (elapsed ts) \<rparr>, fs)
                      else
                        (let o1 = (if truthyString (outputDir options)
                                     then (pc_options parsedConfig)
                                            (''outDir'' \<mapsto> JStr (resolve (cwd ts) (orElse (outputDir options) [])))
                                   else pc_options parsedConfig);
                             o2 = (case sourceMap options of
                                     None \<Rightarrow> o1
                                   | Some b \<Rightarrow> o1(''sourceMap'' \<mapsto> JBool b));
                             emitted = emit ts fs (pc_fileNames parsedConfig) o2;
                             emitResult = fst emitted;
                             allDiagnostics =
                               getPreEmitDiagnostics ts fs (pc_fileNames parsedConfig) o2
                                 @ em_diagnostics emitResult;
                             errors' = map (compileDiagnostic ts ''unknown'') allDiagnostics
                         in (Inr \<lparr> success = (\<not> emitSkipped emitResult \<and> noErrors errors'),
                                    output' = None, files = None,
                                    errors = (if errors' \<noteq> [] then Some errors' else None),
                                    duration = Some (elapsed ts) \<rparr>, snd emitted)))))"

subsection \<open>Watch sessions\<close>

text \<open>
  Every call of \<^verbatim>\<open>chokidar.watch\<close> creates a watcher: a subscription to one path,
  live until it is closed. The list \<open>st_watchers\<close> holds every watcher created so far,
  a watcher's index being its identity; \<open>watcherMap\<close> is the compiler's registry from
  resolved path to watcher, a \<^verbatim>\<open>Map\<close> with its entries in insertion order. Closing
  takes effect at once.
\<close>

record watcher =
  w_path :: string
  w_options :: CompileOptions
  w_closed :: bool

record state =
  st_fs :: fs
  st_watchers :: "watcher list"
  watcherMap :: "(string \<times> nat) list"

definition close :: "nat \<Rightarrow> watcher list \<Rightarrow> watcher list" where
  "close i ws = (if i < length ws then ws[i := (ws ! i)\<lparr>w_closed := True\<rparr>] else ws)"

text \<open>
  \<^verbatim>\<open>setupWatchMode\<close>, in the order of its statements: close the watcher registered
  for the key, if any; create the new watcher; store it under the key.
\<close>

definition closeRegistered :: "string \<Rightarrow> state \<Rightarrow> state" where
  "closeRegistered watchKey st =
     (case map_of (watcherMap st) watchKey of
        None \<Rightarrow> st
      | Some i \<Rightarrow> st\<lparr>st_watchers := close i (st_watchers st)\<rparr>)"

definition openWatcher :: "string \<Rightarrow> CompileOptions \<Rightarrow> state \<Rightarrow> state" where
  "openWatcher p options st =
     st\<lparr>st_watchers := st_watchers st @ [\<lparr> w_path = p, w_options = options, w_closed = False \<rparr>]\<rparr>"

definition register :: "string \<Rightarrow> nat \<Rightarrow> state \<Rightarrow> state" where
  "register watchKey w st = st\<lparr>watcherMap := AList.update watchKey w (watcherMap st)\<rparr>"

definition setupWatchMode :: "env \<Rightarrow> state \<Rightarrow> CompileOptions \<Rightarrow> (exn + CompilationResult) \<times> state" where
  "setupWatchMode ts st options =
     (case resolveArgument (cwd ts) (filePath options) of
        Inl typeError \<Rightarrow> (Inl typeError, st)
      | Inr filePath' \<Rightarrow>
          (let st1 = closeRegistered filePath' st;
               watcher = length (st_watchers st1);
               st2 = openWatcher filePath' options st1;
               st3 = register filePath' watcher st2
           in (Inr \<lparr> success = True,
                      output' = Some (''Watch mode started for '' @ filePath'
                                      @ ''. Press Ctrl+C to stop.''),
                      files = None, errors = None, duration = None \<rparr>, st3)))"

text \<open>
  \<^verbatim>\<open>stopWatching(filePath?)\<close>: an absent and an empty argument are both falsy and stop
  every session.
\<close>

definition closeAll :: "(string \<times> nat) list \<Rightarrow> watcher list \<Rightarrow> watcher list" where
  "closeAll entries ws = fold (\<lambda>entry. close (snd entry)) entries ws"

definition stopWatching :: "env \<Rightarrow> state \<Rightarrow> string option \<Rightarrow> state" where
  "stopWatching ts st filePath' =
     (if truthyString filePath' then
        (let watchKey = resolve (cwd ts) (orElse filePath' [])
         in case map_of (watcherMap st) watchKey of
              None \<Rightarrow> st
            | Some i \<Rightarrow>
                st\<lparr>st_watchers := close i (st_watchers st),
                   watcherMap := AList.delete watchKey (watcherMap st)\<rparr>)
      else
        st\<lparr>st_watchers := closeAll (watcherMap st) (st_watchers st),
           watcherMap := []\<rparr>)"

text \<open>
  \<^verbatim>\<open>compileFile\<close>. The function is asynchronous and returns the promises of
  \<^verbatim>\<open>compileProject\<close> and \<^verbatim>\<open>compileSingleFile\<close> without awaiting them: their
  rejections settle the returned promise and do not reach the \<^verbatim>\<open>catch\<close> block.
  What is thrown while the \<^verbatim>\<open>try\<close> block itself runs is caught: the final
  \<^verbatim>\<open>throw\<close> and an exception of the synchronous \<^verbatim>\<open>setupWatchMode\<close>.
\<close>

definition caught :: "env \<Rightarrow> CompileOptions \<Rightarrow> exn \<Rightarrow> CompilationResult" where
  "caught ts options error =
     \<lparr> success = False, output' = None, files = None,
       errors = Some [\<lparr> file' = orElse (filePath options) (orElse (projectPath options) ''unknown''),
                        line = 0, column = 0,
                        message = errorMessage error,
                        code = ''COMPILE_ERROR'',
                        severity = Sev_error \<rparr>],
       duration = Some (elapsed ts) \<rparr>"

definition liftFs :: "state \<Rightarrow> ('a \<times> fs) \<Rightarrow> 'a \<times> state" where
  "liftFs st r = (fst r, st\<lparr>st_fs := snd r\<rparr>)"

definition compileFile :: "env \<Rightarrow> state \<Rightarrow> CompileOptions \<Rightarrow> (exn + CompilationResult) \<times> state" where
  "compileFile ts st options =
     (if watch options = Some True \<and> truthyString (filePath options) then
        (case setupWatchMode ts st options of
           (Inl error, st1) \<Rightarrow> (Inr (caught ts options error), st1)
         | (Inr result, st1) \<Rightarrow> (Inr result, st1))
      else if truthyString (projectPath options) then
        liftFs st (compileProject ts (st_fs st) options)
      else if truthyString (filePath options) then
        liftFs st (compileSingleFile ts (st_fs st) options)
      else
        (Inr (caught ts options
               (JsError ''Either filePath or projectPath must be provided'')), st))"

section \<open>The configuration manager (handlers/config.ts)\<close>

text \<open>\<^verbatim>\<open>${v}\<close>: the string a template literal makes of a value.\<close>

definition show_int :: "int \<Rightarrow> string" where
  "show_int n = (if n < 0 then ''-'' @ show_nat (nat (- n)) else show_nat (nat n))"

fun jsString :: "json \<Rightarrow> string" where
  "jsString JUndefined = ''undefined''"
| "jsString JNull = ''null''"
| "jsString (JBool b) = (if b then ''true'' else ''false'')"
| "jsString (JNum n) = show_int n"
| "jsString (JStr s) = s"
| "jsString (JArr xs) =
     joinWith '','' (map (\<lambda>x. if isNull x \<or> isUndefined x then [] else jsString x) xs)"
| "jsString (JObj m) = ''[object Object]''"

definition validTargets :: "string list" where
  "validTargets = [''ES3'', ''ES5'', ''ES6'', ''ES2015'', ''ES2016'', ''ES2017'', ''ES2018'',
                   ''ES2019'', ''ES2020'', ''ES2021'', ''ES2022'', ''ESNext'']"

definition validModules :: "string list" where
  "validModules = [''None'', ''CommonJS'', ''AMD'', ''System'', ''UMD'', ''ES6'', ''ES2015'',
                   ''ES2020'', ''ES2022'', ''ESNext'']"

definition validResolutions :: "string list" where
  "validResolutions = [''node'', ''classic'']"

definition booleanOptions :: "string list" where
  "booleanOptions = [''strict'', ''esModuleInterop'', ''skipLibCheck'',
                     ''forceConsistentCasingInFileNames'', ''declaration'', ''sourceMap'']"

definition stringOptions :: "string list" where
  "stringOptions = [''outDir'', ''rootDir'', ''baseUrl'']"

text \<open>
  One enumerated option: checked only when its value is truthy.
\<close>

definition checkEnumerated :: "json \<Rightarrow> string \<Rightarrow> string list \<Rightarrow> string \<Rightarrow> string list" where
  "checkEnumerated compilerOptions key valid listed =
     (let v = get compilerOptions key
      in if truthy v \<and> \<not> arrayIncludes valid v
           then [''Invalid '' @ key @ '': '' @ jsString v @ ''. Valid '' @ listed @ '' are: ''
                 @ joinWith '', '' valid]
         else [])"

definition checkTyped :: "json \<Rightarrow> string \<Rightarrow> string \<Rightarrow> string list" where
  "checkTyped compilerOptions ty option =
     (if \<not> isUndefined (get compilerOptions option) \<and> typeof (get compilerOptions option) \<noteq> ty
        then [option @ '' must be a '' @ ty @ '' value'']
      else [])"

definition checkStringArray :: "json \<Rightarrow> string \<Rightarrow> string list" where
  "checkStringArray config key =
     (let v = get config key
      in if truthy v \<and> \<not> isArray v then [key @ '' must be an array of strings'']
         else if truthy v then
           (case v of
              JArr items \<Rightarrow>
                if filter (\<lambda>item. typeof item \<noteq> ''string'') items \<noteq> []
                  then [''All '' @ key @ '' entries must be strings'']
                else []
            | _ \<Rightarrow> [])
         else [])"

definition validateCompilerOptions :: "json \<Rightarrow> string list" where
  "validateCompilerOptions compilerOptions =
     checkEnumerated compilerOptions ''target'' validTargets ''targets''
     @ checkEnumerated compilerOptions ''module'' validModules ''modules''
     @ checkEnumerated compilerOptions ''moduleResolution'' validResolutions ''options''
     @ concat (map (checkTyped compilerOptions ''boolean'') booleanOptions)
     @ concat (map (checkTyped compilerOptions ''string'') stringOptions)"

record validation =
  isValid :: bool
  v_errors :: "string list"

definition validateConfig :: "json \<Rightarrow> validation" where
  "validateConfig config =
     (if typeof config \<noteq> ''object'' \<or> isNull config
        then \<lparr> isValid = False, v_errors = [''Configuration must be an object''] \<rparr>
      else
        (let errors1 =
               (if truthy (get config ''compilerOptions'') then
                  (if typeof (get config ''compilerOptions'') \<noteq> ''object''
                     then [''compilerOptions must be an object'']
                   else validateCompilerOptions (get config ''compilerOptions''))
                else []);
             errors2 = errors1 @ checkStringArray config ''include'';
             errors3 = errors2 @ checkStringArray config ''exclude''
         in \<lparr> isValid = (errors3 = []), v_errors = errors3 \<rparr>))"

record TsConfigUpdateOptions =
  configPath :: string
  uo_options :: CompilerOptions

record TsConfigUpdateResult =
  cu_success :: bool
  cu_message :: string
  updatedConfig :: "json option"

text \<open>
  The merge of \<^verbatim>\<open>updateTsConfig\<close>: the top level of the configuration read, with
  \<^verbatim>\<open>compilerOptions\<close> replaced by the old compiler options overlaid with the update.
\<close>

definition mergeConfig :: "json \<Rightarrow> CompilerOptions \<Rightarrow> json" where
  "mergeConfig config update =
     JObj ((spread config)
             (''compilerOptions'' \<mapsto> JObj (spread (get config ''compilerOptions'') ++ update)))"

text \<open>
  \<^verbatim>\<open>updateTsConfig\<close>. The existence check is outside the \<^verbatim>\<open>try\<close> block and
  rejects; everything after it is caught and becomes a result. Reading
  \<^verbatim>\<open>compilerOptions\<close> of a configuration that is \<^verbatim>\<open>null\<close> or
  \<^verbatim>\<open>undefined\<close> is a \<^verbatim>\<open>TypeError\<close> of the platform, caught as well.
\<close>

definition updateTsConfig ::
  "env \<Rightarrow> fs \<Rightarrow> TsConfigUpdateOptions \<Rightarrow> (exn + TsConfigUpdateResult) \<times> fs"
where
  "updateTsConfig ts fs request =
     (let configPath' = resolve (cwd ts) (configPath request)
      in if \<not> fileExists fs configPath'
           then (Inl (JsError (''tsconfig.json not found at: '' @ configPath')), fs)
         else case readConfigFile ts fs configPath' of
           Inl configError \<Rightarrow>
             (Inr \<lparr> cu_success = False,
                     cu_message = ''Error reading tsconfig.json: ''
                        @ flattenDiagnosticMessageText ts (d_messageText configError),
                     updatedConfig = None \<rparr>, fs)
         | Inr config \<Rightarrow>
             if isNull config \<or> isUndefined config then
               (Inr \<lparr> cu_success = False,
                       cu_message = ''Cannot read properties of '' @ jsString config
                          @ '' (reading 'compilerOptions')'',
                       updatedConfig = None \<rparr>, fs)
             else
               (let updated = mergeConfig config (uo_options request);
                    validationResult = validateConfig updated
                in if \<not> isValid validationResult then
                     (Inr \<lparr> cu_success = False,
                             cu_message = ''Configuration validation failed: ''
                                @ joinWith '', '' (v_errors validationResult),
                             updatedConfig = None \<rparr>, fs)
                   else case writeFile (eacces ts) fs configPath' (stringify ts updated) of
                     (Inl writeError, fs1) \<Rightarrow>
                       (Inr \<lparr> cu_success = False, cu_message = errorMessage writeError,
                               updatedConfig = None \<rparr>, fs1)
                   | (Inr u, fs1) \<Rightarrow>
                       (Inr \<lparr> cu_success = True,
                               cu_message = ''TypeScript configuration updated successfully'',
                               updatedConfig = Some updated \<rparr>, fs1)))"

section \<open>Histories of watch requests\<close>

text \<open>
  A watcher is live for a key when it watches that path and has not been closed. A new
  compiler has an empty registry and has created no watcher. A history is a sequence of
  invocations of \<^verbatim>\<open>setupWatchMode\<close> and \<^verbatim>\<open>stopWatching\<close> and of change
  notifications; its trace lists every state passed through, the states between the
  statements of \<^verbatim>\<open>setupWatchMode\<close> included.
\<close>

definition live :: "string \<Rightarrow> watcher \<Rightarrow> bool" where
  "live k w = (w_path w = k \<and> \<not> w_closed w)"

definition liveCount :: "state \<Rightarrow> string \<Rightarrow> nat" where
  "liveCount st k = length (filter (live k) (st_watchers st))"

text \<open>
  The \<^verbatim>\<open>change\<close> listener of a watcher: the file is compiled again with the request
  the watcher was created for, \<^verbatim>\<open>watch\<close> switched off. The outcome goes to the
  console, a rejection is caught and logged, and a closed watcher delivers no event.
\<close>

definition changed :: "env \<Rightarrow> state \<Rightarrow> nat \<Rightarrow> state" where
  "changed ts st i =
     (if i < length (st_watchers st) \<and> \<not> w_closed (st_watchers st ! i) then
        st\<lparr>st_fs := snd (compileSingleFile ts (st_fs st)
                          ((w_options (st_watchers st ! i))\<lparr>watch := Some False\<rparr>))\<rparr>
      else st)"

datatype invocation =
    SetupWatchMode CompileOptions
  | StopWatching "string option"
  | Changed nat

fun invoke :: "env \<Rightarrow> state \<Rightarrow> invocation \<Rightarrow> state" where
  "invoke ts st (SetupWatchMode options) = snd (setupWatchMode ts st options)"
| "invoke ts st (StopWatching p) = stopWatching ts st p"
| "invoke ts st (Changed i) = changed ts st i"

definition newCompiler :: "fs \<Rightarrow> state" where
  "newCompiler fs = \<lparr> st_fs = fs, st_watchers = [], watcherMap = [] \<rparr>"

definition run :: "env \<Rightarrow> state \<Rightarrow> invocation list \<Rightarrow> state" where
  "run ts st invs = foldl (invoke ts) st invs"

fun points :: "env \<Rightarrow> state \<Rightarrow> invocation \<Rightarrow> state list" where
  "points ts st (SetupWatchMode options) =
     (case resolveArgument (cwd ts) (filePath options) of
        Inl typeError \<Rightarrow> [st]
      | Inr p \<Rightarrow>
          [closeRegistered p st,
           openWatcher p options (closeRegistered p st),
           register p (length (st_watchers (closeRegistered p st)))
             (openWatcher p options (closeRegistered p st))])"
| "points ts st (StopWatching p) = [stopWatching ts st p]"
| "points ts st (Changed i) = [changed ts st i]"

fun trace :: "env \<Rightarrow> state \<Rightarrow> invocation list \<Rightarrow> state list" where
  "trace ts st [] = [st]"
| "trace ts st (i # invs) = st # points ts st i @ trace ts (invoke ts st i) invs"

text \<open>The invariant of the registry: every live watcher is the one registered for its path.\<close>

definition registered :: "state \<Rightarrow> bool" where
  "registered st =
     (\<forall>i < length (st_watchers st).
        \<not> w_closed (st_watchers st ! i)
          \<longrightarrow> map_of (watcherMap st) (w_path (st_watchers st ! i)) = Some i)"

section \<open>A concrete engine for evaluation\<close>


text \<open>
  A small project: \<^verbatim>\<open>/proj/tsconfig.json\<close> sets \<^verbatim>\<open>sourceMap\<close> to false,
  \<^verbatim>\<open>strict\<close> to true and the target to ES5; \<^verbatim>\<open>/proj/src\<close> holds one
  TypeScript file and one JavaScript file. The sample engine reads that one
  configuration text, takes the compiler options of a configuration as they are, reports
  no diagnostics and transpiles a source by putting a comment before it.
\<close>

definition sampleConfigText :: string where
  "sampleConfigText = ''{compilerOptions:{sourceMap:false,strict:true,target:ES5},include:[src]}''"

definition sampleConfig :: json where
  "sampleConfig =
     JObj [''compilerOptions'' \<mapsto>
             JObj [''sourceMap'' \<mapsto> JBool False, ''strict'' \<mapsto> JBool True,
                   ''target'' \<mapsto> JStr ''ES5''],
           ''include'' \<mapsto> JArr [JStr ''src'']]"

definition sampleFs :: fs where
  "sampleFs =
     [''/'' \<mapsto> Dir,
      ''/proj'' \<mapsto> Dir,
      ''/proj/tsconfig.json'' \<mapsto> File sampleConfigText,
      ''/proj/src'' \<mapsto> Dir,
      ''/proj/src/a.ts'' \<mapsto> File ''let x: number = 1;'',
      ''/proj/src/b.js'' \<mapsto> File ''let y = 2;'']"

definition sampleEnv :: env where
  "sampleEnv =
     \<lparr> getLineAndCharacterOfPosition = (\<lambda>f pos. (0, pos)),
       flattenDiagnosticMessageText =
         (\<lambda>m. case m of Plain s \<Rightarrow> s | Chain (DiagnosticMessageChain s next) \<Rightarrow> s),
       cwd = ''/proj'',
       eacces = (\<lambda>p. False),
       readConfigFile =
         (\<lambda>fs p. if fs p = Some (File sampleConfigText) then Inr sampleConfig
                 else Inl \<lparr> d_file = None, d_start = None,
                           d_messageText = Plain ''Cannot read file.'', d_code = 5083,
                           d_category = Error \<rparr>),
       parseJsonConfigFileContent =
         (\<lambda>fs config basePath.
            \<lparr> pc_options = spread (get config ''compilerOptions''),
              pc_fileNames = [], pc_errors = [] \<rparr>),
       getPreEmitDiagnostics = (\<lambda>fs fileNames options. []),
       emit = (\<lambda>fs fileNames options. (\<lparr> emitSkipped = False, em_diagnostics = [] \<rparr>, fs)),
       transpileModule =
         (\<lambda>sourceCode options name.
            \<lparr> outputText = ''/* js */ '' @ sourceCode,
              sourceMapText = (if truthy (get (JObj options) ''sourceMap'') then Some ''{}'' else None),
              tr_diagnostics = None \<rparr>),
       stringify = (\<lambda>v. ''{}''),
       elapsed = 1 \<rparr>"


text \<open>Requests against the sample project.\<close>

definition sampleWatch :: CompileOptions where
  "sampleWatch = \<lparr> filePath = Some ''src/a.ts'', projectPath = None, outputDir = None,
                    sourceMap = None, watch = Some True \<rparr>"

definition sampleWatching :: state where
  "sampleWatching = snd (setupWatchMode sampleEnv (newCompiler sampleFs) sampleWatch)"


definition validUpdate :: TsConfigUpdateOptions where
  "validUpdate = \<lparr> configPath = ''tsconfig.json'', uo_options = [''strict'' \<mapsto> JBool False] \<rparr>"

section \<open>Evaluation of the sample project\<close>

lemmas path_defs = dirname_def join_def normalize_def normalizeString_def normalizeSegment_def
  isAbsolute_def resolve_def lastComponent_def extname_def basename_def isSuffixOf_def
  trailingSlashes_def endsWith_def

lemma sampleEnv_fields:
  "cwd sampleEnv = ''/proj''"
  "eacces sampleEnv p = False"
  "readConfigFile sampleEnv fs p =
     (if fs p = Some (File sampleConfigText) then Inr sampleConfig
      else Inl \<lparr> d_file = None, d_start = None, d_messageText = Plain ''Cannot read file.'',
                 d_code = 5083, d_category = Error \<rparr>)"
  "parseJsonConfigFileContent sampleEnv fs config basePath =
     \<lparr> pc_options = spread (get config ''compilerOptions''), pc_fileNames = [], pc_errors = [] \<rparr>"
  "getPreEmitDiagnostics sampleEnv fs fileNames opts = []"
  "transpileModule sampleEnv sourceCode opts name =
     \<lparr> outputText = ''/* js */ '' @ sourceCode,
       sourceMapText = (if truthy (get (JObj opts) ''sourceMap'') then Some ''{}'' else None),
       tr_diagnostics = None \<rparr>"
  "stringify sampleEnv v = ''{}''"
  "elapsed sampleEnv = 1"
  by (simp_all add: sampleEnv_def)

lemma sample_resolve:
  "resolve ''/proj'' ''src/a.ts'' = ''/proj/src/a.ts''"
  "resolve ''/proj'' ''src/'' = ''/proj/src''"
  "resolve ''/proj'' ''src/missing.ts'' = ''/proj/src/missing.ts''"
  "resolve ''/proj'' ''src/b.js'' = ''/proj/src/b.js''"
  by (simp_all add: path_defs)

lemma sample_dirname:
  "dirname ''/proj/src/a.ts'' = ''/proj/src''"
  "dirname ''/proj/src'' = ''/proj''"
  "dirname ''/proj'' = ''/''"
  "dirname ''/proj/src/b.js'' = ''/proj/src''"
  "dirname ''/proj/tsconfig.json'' = ''/proj''"
  by (simp_all add: path_defs)

lemma sample_join:
  "join ''/proj/src'' ''tsconfig.json'' = ''/proj/src/tsconfig.json''"
  "join ''/proj'' ''tsconfig.json'' = ''/proj/tsconfig.json''"
  by (simp_all add: path_defs)

lemma sample_findTsConfig:
  "findTsConfig sampleFs ''/proj/src'' = Some ''/proj/tsconfig.json''"
  by (simp add: findTsConfig.simps [of _ "''/proj/src''"] findTsConfig.simps [of _ "''/proj''"]
      sample_dirname sample_join fileExists_def sampleFs_def)

lemma sample_ambientOptions:
  "ambientOptions sampleEnv sampleFs ''/proj/src/a.ts''
     = Some [''sourceMap'' \<mapsto> JBool False, ''strict'' \<mapsto> JBool True, ''target'' \<mapsto> JStr ''ES5'']"
proof -
  have "sampleFs ''/proj/tsconfig.json'' = Some (File sampleConfigText)"
    by (simp add: sampleFs_def)
  then show ?thesis
    by (simp add: ambientOptions_def sample_dirname sample_findTsConfig sampleEnv_fields
        sampleConfig_def get_def)
qed


lemma sample_ancestors:
  "ancestors ''/proj/src'' = [''/proj/src'', ''/proj'', ''/'']"
  "ancestors ''/proj'' = [''/proj'', ''/'']"
proof -
  have d: "dirname ''/'' = ''/''" by (simp add: path_defs)
  show "ancestors ''/proj/src'' = [''/proj/src'', ''/proj'', ''/'']"
    by (simp add: ancestors.simps [of "''/proj/src''"] ancestors.simps [of "''/proj''"]
        ancestors.simps [of "''/''"] sample_dirname d)
  show "ancestors ''/proj'' = [''/proj'', ''/'']"
    by (simp add: ancestors.simps [of "''/proj''"] ancestors.simps [of "''/''"] sample_dirname d)
qed

lemma sampleFs_lookup:
  "sampleFs ''/'' = Some Dir"
  "sampleFs ''/proj'' = Some Dir"
  "sampleFs ''/proj/src'' = Some Dir"
  "sampleFs ''/proj/tsconfig.json'' = Some (File sampleConfigText)"
  "sampleFs ''/proj/src/a.ts'' = Some (File ''let x: number = 1;'')"
  "sampleFs ''/proj/src/b.js'' = Some (File ''let y = 2;'')"
  "sampleFs ''/proj/src/missing.ts'' = None"
  "sampleFs ''/proj/src/tsconfig.json'' = None"
  by (simp_all add: sampleFs_def)

lemma sampleWatching_eval:
  "sampleWatching =
     \<lparr> st_fs = sampleFs,
       st_watchers = [\<lparr> w_path = ''/proj/src/a.ts'', w_options = sampleWatch, w_closed = False \<rparr>],
       watcherMap = [(''/proj/src/a.ts'', 0)] \<rparr>"
  by (simp add: sampleWatching_def sampleWatch_def sampleEnv_fields sample_resolve newCompiler_def
      setupWatchMode_def resolveArgument_def closeRegistered_def openWatcher_def register_def Let_def)

lemma sample_config_path:
  "resolve ''/proj'' ''tsconfig.json'' = ''/proj/tsconfig.json''"
  by (simp add: path_defs)

lemmas validate_defs = validateConfig_def validateCompilerOptions_def checkEnumerated_def
  checkTyped_def checkStringArray_def validTargets_def validModules_def validResolutions_def
  booleanOptions_def stringOptions_def mergeConfig_def get_def


lemma validUpdate_valid:
  "isValid (validateConfig (mergeConfig sampleConfig (uo_options validUpdate)))"
  by (simp add: validate_defs validUpdate_def sampleConfig_def Let_def)

lemma sample_mkdir:
  "mkdirRecursive sampleFs ''/proj'' = Inr sampleFs"
proof -
  have "(\<lambda>p. if p \<in> set [''/proj'', ''/''] \<and> sampleFs p = None then Some Dir else sampleFs p)
          = sampleFs"
    by (rule ext) (auto simp: sampleFs_lookup)
  then show ?thesis
    by (simp add: mkdirRecursive_def sample_ancestors isRegularFile_def sampleFs_lookup)
qed

lemma sample_valid_update:
  "updateTsConfig sampleEnv sampleFs validUpdate
     = (Inr \<lparr> cu_success = True,
              cu_message = ''TypeScript configuration updated successfully'',
              updatedConfig = Some (mergeConfig sampleConfig (uo_options validUpdate)) \<rparr>,
        sampleFs(''/proj/tsconfig.json'' \<mapsto> File ''{}''))"
proof -
  have p: "resolve (cwd sampleEnv) (configPath validUpdate) = ''/proj/tsconfig.json''"
    by (simp add: sampleEnv_fields validUpdate_def sample_config_path)
  have w: "writeFile (eacces sampleEnv) sampleFs ''/proj/tsconfig.json'' c
             = (Inr (), sampleFs(''/proj/tsconfig.json'' \<mapsto> File c))" for c
    by (simp add: writeFile_def sample_dirname sample_mkdir sampleFs_lookup sampleEnv_fields)
  have n: "\<not> isNull sampleConfig" "\<not> isUndefined sampleConfig" by (simp_all add: sampleConfig_def)
  show ?thesis
    unfolding updateTsConfig_def p Let_def
    by (simp add: fileExists_def sampleFs_lookup sampleEnv_fields n validUpdate_valid w)
qed

section \<open>Facts about paths and files\<close>

lemma splitOn_no_separator: "s \<in> set (splitOn c xs) \<Longrightarrow> c \<notin> set s"
proof (induction xs arbitrary: s)
  case Nil
  then show ?case by simp
next
  case (Cons x xs)
  show ?case
  proof (cases "x = c")
    case True
    with Cons show ?thesis by auto
  next
    case False
    obtain w ws where sp: "splitOn c xs = w # ws"
      by (cases "splitOn c xs") (cases xs; simp split: if_splits list.splits)+
    with Cons False show ?thesis by auto
  qed
qed

lemma normalizeSegment_ok:
  "segments_ok res \<Longrightarrow> CHR ''/'' \<notin> set seg \<Longrightarrow> segments_ok (normalizeSegment a res seg)"
  by (auto simp: segments_ok_def normalizeSegment_def dest: in_set_butlastD)

lemma foldl_normalizeSegment_ok:
  "segments_ok res \<Longrightarrow> \<forall>s \<in> set segs. CHR ''/'' \<notin> set s
     \<Longrightarrow> segments_ok (foldl (normalizeSegment a) res segs)"
  by (induction segs arbitrary: res) (simp_all add: normalizeSegment_ok)

lemma joinWith_last:
  "segs \<noteq> [] \<Longrightarrow> segments_ok segs
     \<Longrightarrow> joinWith sep segs \<noteq> [] \<and> last (joinWith sep segs) \<noteq> CHR ''/''"
proof (induction segs)
  case Nil
  then show ?case by simp
next
  case (Cons x xs)
  show ?case
  proof (cases xs)
    case Nil
    from Cons.prems have "x \<noteq> []" "CHR ''/'' \<notin> set x" by (auto simp: segments_ok_def)
    moreover from this have "last x \<noteq> CHR ''/''" by (metis last_in_set)
    ultimately show ?thesis using Nil by simp
  next
    case (Cons y ys)
    then have "joinWith sep xs \<noteq> [] \<and> last (joinWith sep xs) \<noteq> CHR ''/''"
      using Cons.IH Cons.prems by (simp add: segments_ok_def)
    then show ?thesis using Cons by simp
  qed
qed

lemma normalizeString_last:
  "normalizeString path a \<noteq> [] \<Longrightarrow> last (normalizeString path a) \<noteq> CHR ''/''"
proof -
  assume ne: "normalizeString path a \<noteq> []"
  let ?segs = "foldl (normalizeSegment a) [] (splitOn CHR ''/'' path)"
  have ok: "segments_ok ?segs"
    by (rule foldl_normalizeSegment_ok) (auto simp: segments_ok_def dest: splitOn_no_separator)
  have "?segs \<noteq> []" using ne by (auto simp: normalizeString_def)
  then show ?thesis using joinWith_last [OF _ ok] by (simp add: normalizeString_def)
qed

lemma endsWith_slash: "endsWith s ''/'' = (s \<noteq> [] \<and> last s = CHR ''/'')"
proof (cases s rule: rev_cases)
  case Nil
  then show ?thesis by (simp add: endsWith_def isSuffixOf_def)
next
  case (snoc ys y)
  then show ?thesis by (auto simp: endsWith_def isSuffixOf_def)
qed

lemma resolve_no_trailing_slash:
  "resolve dir path \<noteq> ''/'' \<Longrightarrow> \<not> endsWith (resolve dir path) ''/''"
  using normalizeString_last
  by (auto simp: resolve_def Let_def endsWith_slash split: if_splits)

lemma lastComponent_flat: "CHR ''/'' \<notin> set (lastComponent p)"
  by (auto simp: lastComponent_def dest: set_takeWhileD)

lemma extname_suffix:
  assumes "extname p \<noteq> []"
  shows "isSuffixOf (extname p) (lastComponent p) \<and> extname p \<noteq> lastComponent p"
proof -
  let ?b = "lastComponent p"
  let ?t = "takeWhile (\<lambda>c. c \<noteq> CHR ''.'') (rev ?b)"
  let ?d = "dropWhile (\<lambda>c. c \<noteq> CHR ''.'') (rev ?b)"
  from assms have dot: "CHR ''.'' \<in> set ?b" and pre: "length ?b - length (rev ?t) - 1 \<noteq> 0"
    and e: "extname p = CHR ''.'' # rev ?t"
    by (auto simp: extname_def Let_def split: if_splits)
  have "?d \<noteq> []" using dot by (auto simp: dropWhile_eq_Nil_conv)
  moreover have "hd ?d = CHR ''.''" using \<open>?d \<noteq> []\<close> hd_dropWhile [of "\<lambda>c. c \<noteq> CHR ''.''" "rev ?b"] by simp
  ultimately obtain rest where d: "?d = CHR ''.'' # rest" by (cases ?d) auto
  have "rev ?b = ?t @ ?d" by simp
  then have "rev ?b = ?t @ CHR ''.'' # rest" using d by simp
  then have "rev (rev ?b) = rev (?t @ CHR ''.'' # rest)" by (rule arg_cong)
  then have b: "?b = rev rest @ CHR ''.'' # rev ?t" by simp
  have "isSuffixOf (CHR ''.'' # rev ?t) (rev rest @ CHR ''.'' # rev ?t)"
    by (simp add: isSuffixOf_def)
  then have s: "isSuffixOf (extname p) ?b" using b e by simp
  have "length ?b = length rest + 1 + length ?t" using arg_cong [OF b, of length] by simp
  then have "rest \<noteq> []" using pre by auto
  then have "length (extname p) \<noteq> length ?b" using e arg_cong [OF b, of length] by simp
  then have "extname p \<noteq> ?b" by auto
  with s show ?thesis by simp
qed

lemma basename_extname_flat: "CHR ''/'' \<notin> set (basename p (extname p))"
proof (cases "extname p = []")
  case True
  then show ?thesis by (simp add: basename_def lastComponent_flat)
next
  case False
  from extname_suffix [OF False] lastComponent_flat [of p]
  show ?thesis
    by (auto simp: basename_def Let_def dest: in_set_takeD)
qed

lemma mkdirRecursive_keeps:
  "mkdirRecursive fs dir = Inr fs1 \<Longrightarrow> fs p \<noteq> None \<Longrightarrow> fs1 p = fs p"
  by (auto simp: mkdirRecursive_def split: if_splits)

lemma writeFile_other:
  assumes "q \<noteq> p" "fs p \<noteq> None"
  shows "snd (writeFile deny fs q c) p = fs p"
  using assms
  by (auto simp: writeFile_def mkdirRecursive_keeps split: sum.splits)

lemma replaceTsExtension_other:
  "\<not> endsWith p ''.ts'' \<Longrightarrow> \<not> endsWith p ''.tsx'' \<Longrightarrow> replaceTsExtension p = p"
  by (simp add: replaceTsExtension_def)

lemma getOutputPath_no_outputDir:
  "\<not> truthyString d \<Longrightarrow> getOutputPath p d = replaceTsExtension p"
  by (cases d) (auto simp: getOutputPath_def)

lemma writeFile_writes:
  assumes "fs p = Some (File old)" "\<not> deny p" "\<forall>a \<in> set (ancestors (dirname p)). \<not> isRegularFile fs a"
  shows "fst (writeFile deny fs p c) = Inr () \<and> snd (writeFile deny fs p c) p = Some (File c)"
  using assms by (auto simp: writeFile_def mkdirRecursive_def)

lemma writeFiles_source:
  assumes "fs p = Some (File old)" "\<not> deny p" "\<forall>a \<in> set (ancestors (dirname p)). \<not> isRegularFile fs a"
    and "q \<noteq> p"
  shows "snd (writeFiles deny fs ((p, c) # (if b then [(q, m)] else []))) p = Some (File c)"
proof -
  obtain fs1 where w: "writeFile deny fs p c = (Inr (), fs1)" "fs1 p = Some (File c)"
    using writeFile_writes [where fs = fs and p = p and deny = deny and c = c, OF assms(1-3)]
    by (cases "writeFile deny fs p c") auto
  have "snd (writeFile deny fs1 q m) p = fs1 p"
    using assms(4) w(2) by (intro writeFile_other) auto
  then show ?thesis using w
    by (cases "writeFile deny fs1 q m") (auto split: sum.splits)
qed


lemma writeFile_written:
  assumes "writeFile deny fs p c = (Inr u, fs1)"
  shows "fs1 p = Some (File c)"
proof (cases "mkdirRecursive fs (dirname p)")
  case (Inl e)
  then show ?thesis using assms by (simp add: writeFile_def)
next
  case (Inr fs0)
  then show ?thesis using assms by (auto simp: writeFile_def split: if_splits)
qed

lemma updateTsConfig_success:
  assumes "updateTsConfig ts fs request = (Inr result, fs1)" "cu_success result"
  shows "\<exists>config. readConfigFile ts fs (resolve (cwd ts) (configPath request)) = Inr config
           \<and> updatedConfig result = Some (mergeConfig config (uo_options request))
           \<and> fs1 (resolve (cwd ts) (configPath request))
               = Some (File (stringify ts (mergeConfig config (uo_options request))))"
proof -
  let ?p = "resolve (cwd ts) (configPath request)"
  have ex: "fileExists fs ?p"
  proof (rule ccontr)
    assume "\<not> fileExists fs ?p"
    then show False using assms(1) by (simp add: updateTsConfig_def Let_def)
  qed
  show ?thesis
  proof (cases "readConfigFile ts fs ?p")
    case (Inl e)
    then show ?thesis using assms ex by (simp add: updateTsConfig_def Let_def) auto
  next
    case (Inr config)
    let ?m = "mergeConfig config (uo_options request)"
    have ok: "\<not> (isNull config \<or> isUndefined config)"
    proof
      assume "isNull config \<or> isUndefined config"
      then show False using assms ex Inr by (simp add: updateTsConfig_def Let_def) auto
    qed
    have valid: "isValid (validateConfig ?m)"
    proof (rule ccontr)
      assume "\<not> isValid (validateConfig ?m)"
      then show False using assms ex Inr ok by (simp add: updateTsConfig_def Let_def) auto
    qed
    obtain r fs2 where w: "writeFile (eacces ts) fs ?p (stringify ts ?m) = (r, fs2)"
      by (cases "writeFile (eacces ts) fs ?p (stringify ts ?m)")
    show ?thesis
    proof (cases r)
      case (Inl e)
      then show ?thesis using assms ex Inr ok valid w
        by (simp add: updateTsConfig_def Let_def) auto
    next
      case r: (Inr u)
      have "fs2 ?p = Some (File (stringify ts ?m))"
        using w unfolding r by (rule writeFile_written)
      then show ?thesis using assms ex Inr ok valid w r
        by (simp add: updateTsConfig_def Let_def) auto
    qed
  qed
qed

section \<open>The registry invariant of the watch sessions\<close>

lemma closeAll_empty: "closeAll [] ws = ws"
  by (simp add: closeAll_def)

lemma filter_unique_index:
  assumes "\<And>i j. i < length xs \<Longrightarrow> j < length xs \<Longrightarrow> P (xs ! i) \<Longrightarrow> P (xs ! j) \<Longrightarrow> i = j"
  shows "length (filter P xs) \<le> 1"
  using assms
proof (induction xs)
  case Nil
  then show ?case by simp
next
  case (Cons x xs)
  have step: "length (filter P xs) \<le> 1"
  proof (rule Cons.IH)
    fix i j
    assume "i < length xs" "j < length xs" "P (xs ! i)" "P (xs ! j)"
    then have "Suc i = Suc j" using Cons.prems [of "Suc i" "Suc j"] by simp
    then show "i = j" by simp
  qed
  show ?case
  proof (cases "P x")
    case True
    have "filter P xs = []"
    proof (rule ccontr)
      assume "filter P xs \<noteq> []"
      then obtain y where "y \<in> set xs" "P y" by (auto simp: filter_empty_conv)
      then obtain j where "j < length xs" "xs ! j = y" by (auto simp: in_set_conv_nth)
      then have "(0::nat) = Suc j" using Cons.prems [of 0 "Suc j"] True \<open>P y\<close> by simp
      then show False by simp
    qed
    then show ?thesis using True by simp
  next
    case False
    then show ?thesis using step by simp
  qed
qed

lemma registered_liveCount:
  assumes "registered st"
  shows "liveCount st k \<le> 1"
  unfolding liveCount_def
proof (rule filter_unique_index)
  fix i j
  assume "i < length (st_watchers st)" "j < length (st_watchers st)"
    "live k (st_watchers st ! i)" "live k (st_watchers st ! j)"
  then have "map_of (watcherMap st) k = Some i" "map_of (watcherMap st) k = Some j"
    using assms by (auto simp: registered_def live_def)
  then show "i = j" by simp
qed

lemma length_close [simp]: "length (close i ws) = length ws"
  by (simp add: close_def)

lemma nth_close:
  "j < length ws \<Longrightarrow> close i ws ! j = (if j = i then (ws ! i)\<lparr>w_closed := True\<rparr> else ws ! j)"
  by (simp add: close_def nth_list_update)

lemma registered_closeRegistered: "registered st \<Longrightarrow> registered (closeRegistered k st)"
  by (auto simp: registered_def closeRegistered_def nth_close split: option.splits)

lemma noLive_closeRegistered:
  assumes "registered st"
  shows "filter (live k) (st_watchers (closeRegistered k st)) = []"
proof -
  have "\<not> live k w" if "w \<in> set (st_watchers (closeRegistered k st))" for w
  proof
    assume l: "live k w"
    from that obtain j where j: "j < length (st_watchers (closeRegistered k st))"
      "st_watchers (closeRegistered k st) ! j = w" by (auto simp: in_set_conv_nth)
    show False
    proof (cases "map_of (watcherMap st) k")
      case None
      with j l assms show False
        by (auto simp: closeRegistered_def registered_def live_def)
    next
      case (Some i)
      with j l assms show False
        by (auto simp: closeRegistered_def registered_def live_def nth_close split: if_splits)
    qed
  qed
  then show ?thesis by (auto simp: filter_empty_conv)
qed


lemma registered_setup:
  assumes "registered st"
  shows "registered (register k (length (st_watchers (closeRegistered k st)))
                       (openWatcher k options (closeRegistered k st)))"
proof -
  let ?st1 = "closeRegistered k st"
  have r1: "registered ?st1" using assms by (rule registered_closeRegistered)
  have nl: "filter (live k) (st_watchers ?st1) = []" using assms by (rule noLive_closeRegistered)
  show ?thesis
    unfolding registered_def
  proof (intro allI impI)
    fix i
    let ?st3 = "register k (length (st_watchers ?st1)) (openWatcher k options ?st1)"
    assume i: "i < length (st_watchers ?st3)" and isopen: "\<not> w_closed (st_watchers ?st3 ! i)"
    show "map_of (watcherMap ?st3) (w_path (st_watchers ?st3 ! i)) = Some i"
    proof (cases "i < length (st_watchers ?st1)")
      case True
      then have same: "st_watchers ?st3 ! i = st_watchers ?st1 ! i"
        by (simp add: register_def openWatcher_def nth_append)
      have "st_watchers ?st1 ! i \<in> set (st_watchers ?st1)" using True by simp
      then have "\<not> live k (st_watchers ?st1 ! i)" using nl by (auto simp: filter_empty_conv)
      then have "w_path (st_watchers ?st1 ! i) \<noteq> k" using isopen same by (simp add: live_def)
      moreover have "map_of (watcherMap ?st1) (w_path (st_watchers ?st1 ! i)) = Some i"
        using r1 True isopen same by (simp add: registered_def)
      ultimately show ?thesis using same
        by (simp add: register_def openWatcher_def update_conv')
    next
      case False
      then have "i = length (st_watchers ?st1)" using i by (simp add: register_def openWatcher_def)
      then show ?thesis by (simp add: register_def openWatcher_def update_conv')
    qed
  qed
qed

lemma liveCount_open:
  assumes "registered st"
  shows "liveCount (openWatcher k options (closeRegistered k st)) k' \<le> 1"
proof (cases "k' = k")
  case True
  then show ?thesis
    using noLive_closeRegistered [OF assms, of k]
    by (simp add: liveCount_def openWatcher_def)
next
  case False
  have "liveCount (openWatcher k options (closeRegistered k st)) k'
          = liveCount (closeRegistered k st) k'"
    using False by (simp add: liveCount_def openWatcher_def live_def)
  then show ?thesis
    using registered_liveCount [OF registered_closeRegistered [OF assms]] by simp
qed

lemma length_closeAll [simp]: "length (closeAll entries ws) = length ws"
  unfolding closeAll_def by (induction entries arbitrary: ws) simp_all

lemma nth_closeAll:
  "j < length ws \<Longrightarrow>
     closeAll entries ws ! j
       = (if j \<in> snd ` set entries then (ws ! j)\<lparr>w_closed := True\<rparr> else ws ! j)"
  unfolding closeAll_def
  by (induction entries arbitrary: ws) (auto simp: nth_close)

lemma registered_stopWatching:
  assumes "registered st"
  shows "registered (stopWatching ts st p)"
proof (cases "truthyString p")
  case True
  show ?thesis
  proof (cases "map_of (watcherMap st) (resolve (cwd ts) (orElse p []))")
    case None
    then show ?thesis using True assms by (simp add: stopWatching_def)
  next
    case (Some i)
    then show ?thesis using True assms
      by (auto simp: stopWatching_def registered_def nth_close Let_def delete_conv')
  qed
next
  case False
  have "w_closed (closeAll (watcherMap st) (st_watchers st) ! j)"
    if "j < length (st_watchers st)" for j
  proof (cases "w_closed (st_watchers st ! j)")
    case True
    then show ?thesis using that by (simp add: nth_closeAll)
  next
    case isopen: False
    then have "map_of (watcherMap st) (w_path (st_watchers st ! j)) = Some j"
      using assms that by (simp add: registered_def)
    then have "(w_path (st_watchers st ! j), j) \<in> set (watcherMap st)" by (rule map_of_SomeD)
    then have "j \<in> snd ` set (watcherMap st)" by force
    then show ?thesis using that by (simp add: nth_closeAll)
  qed
  then show ?thesis using False by (simp add: stopWatching_def registered_def)
qed

lemma registered_changed: "registered (changed ts st i) = registered st"
  by (simp add: changed_def registered_def)

lemma liveCount_changed: "liveCount (changed ts st i) k = liveCount st k"
  by (simp add: changed_def liveCount_def)

lemma registered_invoke: "registered st \<Longrightarrow> registered (invoke ts st i)"
  by (cases i) (auto simp: setupWatchMode_def Let_def registered_setup registered_stopWatching
      registered_changed split: sum.splits)

lemma registered_run: "registered st \<Longrightarrow> registered (run ts st invs)"
  unfolding run_def by (induction invs arbitrary: st) (simp_all add: registered_invoke)

lemma last_points: "last (points ts st i) = invoke ts st i"
  by (cases i) (simp_all add: setupWatchMode_def Let_def split: sum.splits)

lemma registered_newCompiler: "registered (newCompiler fs)"
  by (simp add: registered_def newCompiler_def)

lemma points_liveCount:
  assumes "registered st"
  shows "list_all (\<lambda>s. liveCount s k \<le> 1) (points ts st i)"
proof (cases i)
  case (SetupWatchMode options)
  show ?thesis
  proof (cases "resolveArgument (cwd ts) (filePath options)")
    case (Inl e)
    then show ?thesis using SetupWatchMode assms
      by (simp add: registered_liveCount del: One_nat_def)
  next
    case (Inr p)
    then show ?thesis using SetupWatchMode assms
      by (simp add: registered_liveCount registered_closeRegistered liveCount_open registered_setup
          del: One_nat_def)
  qed
next
  case (StopWatching p)
  then show ?thesis using assms
    by (simp add: registered_liveCount registered_stopWatching del: One_nat_def)
next
  case (Changed i)
  then show ?thesis using assms
    by (simp add: registered_liveCount liveCount_changed del: One_nat_def)
qed

lemma trace_liveCount:
  "registered st \<Longrightarrow> list_all (\<lambda>s. liveCount s k \<le> 1) (trace ts st invs)"
  by (induction invs arbitrary: st)
     (simp_all add: registered_liveCount points_liveCount registered_invoke del: One_nat_def)

lemma liveCount_after_setup:
  assumes "registered st"
  shows "liveCount (invoke ts st (SetupWatchMode (options\<lparr>filePath := Some p\<rparr>))) (resolve (cwd ts) p) = 1"
  using noLive_closeRegistered [OF assms, of "resolve (cwd ts) p"]
  by (simp add: setupWatchMode_def resolveArgument_def Let_def liveCount_def register_def
      openWatcher_def live_def)

section \<open>Properties of the diagnostics\<close>

lemma severity_formatDiagnostic:
  "severity (formatDiagnostic ts d) =
     (if d_category d = Warning then Sev_warning
      else if d_category d = Suggestion \<or> d_category d = Message then Sev_info
      else Sev_error)"
  by (simp add: formatDiagnostic_def Let_def)

lemma severity_compileDiagnostic:
  "severity (compileDiagnostic ts fb d) = (if d_category d = Error then Sev_error else Sev_warning)"
  by (simp add: compileDiagnostic_def Let_def)





text \<open>
  C2. In every returned result the severity of a diagnostic follows the fixed mapping
  Error to error, Warning to warning, Suggestion or Message to info, anything else to
  error. \<^verbatim>\<open>formatDiagnostic\<close> does so; the mapping written inline in
  \<^verbatim>\<open>compileSingleFile\<close> and \<^verbatim>\<open>compileProject\<close> does not: a Message
  (or Suggestion) diagnostic is reported there as a warning.
\<close>

theorem C2_inline_severity_of_Message:
  "severity (formatDiagnostic ts (d\<lparr>d_category := Message\<rparr>)) = Sev_info
   \<and> severity (compileDiagnostic ts fallback (d\<lparr>d_category := Message\<rparr>)) = Sev_warning
   \<and> severity (formatDiagnostic ts (d\<lparr>d_category := Suggestion\<rparr>)) = Sev_info
   \<and> severity (compileDiagnostic ts fallback (d\<lparr>d_category := Suggestion\<rparr>)) = Sev_warning"
  by (simp add: severity_formatDiagnostic severity_compileDiagnostic DiagnosticCategory_defs)




section \<open>Precedence of compiler options\<close>

text \<open>
  In \<^verbatim>\<open>compileSingleFile\<close> every key of the parsed configuration replaces the
  value built from the request. In \<^verbatim>\<open>checkSingleFile\<close> the four keys of the object
  literal (\<^verbatim>\<open>target\<close>, \<^verbatim>\<open>module\<close>, \<^verbatim>\<open>strict\<close>,
  \<^verbatim>\<open>skipLibCheck\<close>) replace the configuration's, whether the request supplied them
  or not.
\<close>

lemma compileSingleFile_ambient_wins:
  "ambientOptions ts fs p = Some parsed \<Longrightarrow> parsed k = Some v
     \<Longrightarrow> compileSingleFile_compilerOptions ts fs options p k = Some v"
  by (simp add: compileSingleFile_compilerOptions_def)

lemma checkSingleFile_literal_wins:
  "checkSingleFile_compilerOptions ts fs options ''target'' = Some ScriptTarget_ES2020"
  "checkSingleFile_compilerOptions ts fs options ''module'' = Some ModuleKind_CommonJS"
  "checkSingleFile_compilerOptions ts fs options ''strict'' = Some (JBool (strict options = Some True))"
  "checkSingleFile_compilerOptions ts fs options ''skipLibCheck''
     = Some (JBool (includeDeclarations options \<noteq> Some True))"
  by (simp_all add: checkSingleFile_compilerOptions_def Let_def split: option.splits)

text \<open>
  C1. The effective compiler options follow the order request, then configuration file,
  then built-in default, in the single-file compile path and in the type-check paths
  alike. On the sample project, whose \<^verbatim>\<open>tsconfig.json\<close> sets
  \<^verbatim>\<open>sourceMap\<close> to false, \<^verbatim>\<open>strict\<close> to true and a target of its own:
  \<^verbatim>\<open>compileSingleFile\<close> with an explicit \<^verbatim>\<open>sourceMap: true\<close> hands the
  engine \<^verbatim>\<open>sourceMap\<close> false (the configuration beats the request);
  \<^verbatim>\<open>checkSingleFile\<close> with no \<^verbatim>\<open>strict\<close> in the request hands the engine
  \<^verbatim>\<open>strict\<close> false, and it and \<^verbatim>\<open>getDiagnostics\<close> hand it the built-in
  target (the defaults beat the configuration).
\<close>

theorem C1_precedence_at_sample_project:
  "ambientOptions sampleEnv sampleFs ''/proj/src/a.ts''
     = Some [''sourceMap'' \<mapsto> JBool False, ''strict'' \<mapsto> JBool True, ''target'' \<mapsto> JStr ''ES5'']
   \<and> compileSingleFile_compilerOptions sampleEnv sampleFs
       \<lparr> filePath = Some ''src/a.ts'', projectPath = None, outputDir = None,
         sourceMap = Some True, watch = None \<rparr> ''/proj/src/a.ts'' ''sourceMap''
       = Some (JBool False)
   \<and> checkSingleFile_compilerOptions sampleEnv sampleFs
       \<lparr> tc_filePath = ''src/a.ts'', strict = None, includeDeclarations = None \<rparr> ''strict''
       = Some (JBool False)
   \<and> checkSingleFile_compilerOptions sampleEnv sampleFs
       \<lparr> tc_filePath = ''src/a.ts'', strict = None, includeDeclarations = None \<rparr> ''target''
       = Some ScriptTarget_ES2020
   \<and> getDiagnostics_compilerOptions sampleEnv sampleFs
       \<lparr> dg_filePath = ''src/a.ts'', formatOutput = None \<rparr> ''target''
       = Some ScriptTarget_ES2020"
  by (simp add: compileSingleFile_compilerOptions_def checkSingleFile_compilerOptions_def
      getDiagnostics_compilerOptions_def sample_ambientOptions sampleEnv_fields sample_resolve)

section \<open>Dispatch of \<^verbatim>\<open>checkTypes\<close>\<close>

text \<open>
  Every existing target other than the root is checked as a single file: the resolved
  path never ends with a slash, and a directory exists as a file does.
\<close>

lemma checkTypes_dispatch:
  assumes "fileExists fs (resolve (cwd ts) (tc_filePath options))"
      and "resolve (cwd ts) (tc_filePath options) \<noteq> ''/''"
  shows "checkTypes ts fs options = checkSingleFile ts fs options"
  using assms resolve_no_trailing_slash [OF assms(2)] by (simp add: checkTypes_def)

text \<open>
  C4. An existing regular file is checked alone; a directory is checked as a project,
  which fails when the directory has no \<^verbatim>\<open>tsconfig.json\<close>. On the sample project
  the directory \<^verbatim>\<open>/proj/src\<close> has no \<^verbatim>\<open>tsconfig.json\<close>:
  \<^verbatim>\<open>checkProject\<close> would raise, but \<^verbatim>\<open>checkTypes\<close> runs
  \<^verbatim>\<open>checkSingleFile\<close> on the directory and returns a successful result.
\<close>

theorem C4_directory_checked_as_single_file:
  "sampleFs (resolve (cwd sampleEnv) ''src/'') = Some Dir
   \<and> checkTypes sampleEnv sampleFs
        \<lparr> tc_filePath = ''src/'', strict = None, includeDeclarations = None \<rparr>
       = checkSingleFile sampleEnv sampleFs
           \<lparr> tc_filePath = ''src/'', strict = None, includeDeclarations = None \<rparr>
   \<and> checkTypes sampleEnv sampleFs
        \<lparr> tc_filePath = ''src/'', strict = None, includeDeclarations = None \<rparr>
       = Inr \<lparr> tc_success = True, diagnostics = [],
               summary = \<lparr> errorCount = 0, warningCount = 0, infoCount = 0 \<rparr> \<rparr>
   \<and> checkProject sampleEnv sampleFs
        \<lparr> tc_filePath = ''src/'', strict = None, includeDeclarations = None \<rparr>
       = Inl (JsError ''tsconfig.json not found in /proj/src'')"
  by (simp add: checkTypes_def checkProject_def checkSingleFile_def getDiagnosticSummary_def
      sampleEnv_fields sample_resolve sample_join sampleFs_lookup
      fileExists_def endsWith_def isSuffixOf_def)

section \<open>Watch sessions\<close>

text \<open>
  C5. Over every history of \<^verbatim>\<open>setupWatchMode\<close> and \<^verbatim>\<open>stopWatching\<close>
  invocations on a new compiler (change notifications among them), and for every key, at
  most one watcher is live for the key in every state passed through, the states between
  closing the old watcher, opening the new one and registering it included; and after a
  registration for a key, whatever came before, exactly one watcher is live for it.
\<close>

theorem C5_at_most_one_live_watcher:
  "list_all (\<lambda>s. liveCount s k \<le> 1) (trace ts (newCompiler fs) invs)
   \<and> liveCount (run ts (newCompiler fs) (invs @ [SetupWatchMode (options\<lparr>filePath := Some p\<rparr>)]))
        (resolve (cwd ts) p) = 1"
  using trace_liveCount [OF registered_newCompiler]
    liveCount_after_setup [OF registered_run [OF registered_newCompiler]]
  by (simp add: run_def)

text \<open>
  C5 at the sample project: two registrations of the same file and a stop-all, then one
  more registration; the number of live watchers for the key along the trace of the two
  registrations.
\<close>

theorem C5_at_most_one_live_watcher_witness:
  "list_all (\<lambda>s. liveCount s ''/proj/src/a.ts'' \<le> 1)
     (trace sampleEnv (newCompiler sampleFs)
        [SetupWatchMode sampleWatch, SetupWatchMode sampleWatch, StopWatching None])
   \<and> liveCount (run sampleEnv (newCompiler sampleFs)
        ([SetupWatchMode sampleWatch, SetupWatchMode sampleWatch, StopWatching None]
          @ [SetupWatchMode (sampleWatch\<lparr>filePath := Some ''src/a.ts''\<rparr>)]))
        (resolve (cwd sampleEnv) ''src/a.ts'') = 1
   \<and> map (\<lambda>s. liveCount s ''/proj/src/a.ts'')
        (trace sampleEnv (newCompiler sampleFs) [SetupWatchMode sampleWatch, SetupWatchMode sampleWatch])
       = [0, 0, 1, 1, 1, 0, 1, 1, 1]"
  using C5_at_most_one_live_watcher [where k = "''/proj/src/a.ts''" and ts = sampleEnv
      and fs = sampleFs and options = sampleWatch and p = "''src/a.ts''"
      and invs = "[SetupWatchMode sampleWatch, SetupWatchMode sampleWatch, StopWatching None]"]
  by (simp add: sampleWatch_def sampleEnv_fields sample_resolve newCompiler_def liveCount_def
      live_def setupWatchMode_def resolveArgument_def closeRegistered_def openWatcher_def
      register_def close_def Let_def)

text \<open>
  C6, as stated: \<^verbatim>\<open>stopWatching(filePath)\<close> for a key with no registered session
  changes nothing. It fails for the empty path: its key, the working directory, has no
  session, yet the empty string is falsy and the call stops every session.
\<close>

theorem C6_empty_path_counterexample:
  "map_of (watcherMap sampleWatching) (resolve (cwd sampleEnv) []) = None
   \<and> liveCount sampleWatching ''/proj/src/a.ts'' = 1
   \<and> liveCount (stopWatching sampleEnv sampleWatching (Some [])) ''/proj/src/a.ts'' = 0
   \<and> stopWatching sampleEnv sampleWatching (Some []) \<noteq> sampleWatching"
proof -
  have r: "resolve ''/proj'' [] = ''/proj''" by (simp add: path_defs)
  have a: "map_of (watcherMap sampleWatching) (resolve (cwd sampleEnv) []) = None"
    by (simp add: sampleWatching_eval sampleEnv_fields r)
  have b: "liveCount sampleWatching ''/proj/src/a.ts'' = 1"
    by (simp add: sampleWatching_eval liveCount_def live_def)
  have c: "liveCount (stopWatching sampleEnv sampleWatching (Some [])) ''/proj/src/a.ts'' = 0"
    by (simp add: sampleWatching_eval stopWatching_def closeAll_def close_def liveCount_def live_def)
  from b c have "stopWatching sampleEnv sampleWatching (Some []) \<noteq> sampleWatching"
    by auto
  with a b c show ?thesis by simp
qed

text \<open>
  C6, amended: \<^verbatim>\<open>stopWatching()\<close> twice leaves the state one call leaves (and
  the function has no exception to raise); an empty \<^verbatim>\<open>filePath\<close> is the same call as
  \<^verbatim>\<open>stopWatching()\<close>; for a non-empty \<^verbatim>\<open>filePath\<close> whose key has no
  registered session the call changes nothing.
\<close>

theorem C6_stopWatching_idempotent:
  "stopWatching ts (stopWatching ts st None) None = stopWatching ts st None
   \<and> stopWatching ts st (Some []) = stopWatching ts st None
   \<and> (p \<noteq> [] \<and> map_of (watcherMap st) (resolve (cwd ts) p) = None
        \<longrightarrow> stopWatching ts st (Some p) = st)"
  by (simp add: stopWatching_def closeAll_empty)

text \<open>
  C6 at the sample project, with one session registered for \<^verbatim>\<open>/proj/src/a.ts\<close>.
\<close>

theorem C6_stopWatching_idempotent_witness:
  "stopWatching sampleEnv (stopWatching sampleEnv sampleWatching None) None
     = stopWatching sampleEnv sampleWatching None
   \<and> map_of (watcherMap sampleWatching) (resolve (cwd sampleEnv) ''src/b.js'') = None
   \<and> stopWatching sampleEnv sampleWatching (Some ''src/b.js'') = sampleWatching
   \<and> liveCount (stopWatching sampleEnv sampleWatching None) ''/proj/src/a.ts'' = 0"
proof -
  have n: "map_of (watcherMap sampleWatching) (resolve (cwd sampleEnv) ''src/b.js'') = None"
    by (simp add: sampleWatching_eval sampleEnv_fields sample_resolve)
  have z: "liveCount (stopWatching sampleEnv sampleWatching None) ''/proj/src/a.ts'' = 0"
    by (simp add: sampleWatching_eval stopWatching_def closeAll_def close_def liveCount_def live_def)
  show ?thesis
    using C6_stopWatching_idempotent [of sampleEnv sampleWatching "''src/b.js''"] n z
    by simp
qed

section \<open>Configuration updates\<close>



text \<open>
  C10. When an update succeeds, the file holds the serialisation of the merged
  configuration, in which every top-level key other than \<^verbatim>\<open>compilerOptions\<close> has
  the value it had in the configuration read, every compiler option the update does not
  mention has its previous value, and every option it mentions has the update's value.
\<close>

theorem C10_update_changes_only_named_options:
  assumes "updateTsConfig ts fs request = (Inr result, fs1)" and "cu_success result"
  shows "\<exists>config.
           readConfigFile ts fs (resolve (cwd ts) (configPath request)) = Inr config
           \<and> fs1 (resolve (cwd ts) (configPath request))
               = Some (File (stringify ts (mergeConfig config (uo_options request))))
           \<and> (\<forall>k. k \<noteq> ''compilerOptions''
                  \<longrightarrow> get (mergeConfig config (uo_options request)) k = get config k)
           \<and> (\<forall>k. uo_options request k = None
                  \<longrightarrow> get (get (mergeConfig config (uo_options request)) ''compilerOptions'') k
                        = get (get config ''compilerOptions'') k)
           \<and> (\<forall>k v. uo_options request k = Some v
                  \<longrightarrow> get (get (mergeConfig config (uo_options request)) ''compilerOptions'') k = v)"
proof -
  from updateTsConfig_success [OF assms] obtain config where
    c: "readConfigFile ts fs (resolve (cwd ts) (configPath request)) = Inr config"
       "fs1 (resolve (cwd ts) (configPath request))
          = Some (File (stringify ts (mergeConfig config (uo_options request))))"
    by blast
  have f1: "get (mergeConfig config u) k = get config k" if "k \<noteq> ''compilerOptions''" for k u
    using that by (simp add: mergeConfig_def get_def)
  have f2: "get (get (mergeConfig config u) ''compilerOptions'') k
                   = get (get config ''compilerOptions'') k" if "u k = None" for k u
    using that by (simp add: mergeConfig_def get_def map_add_def)
  have f3: "get (get (mergeConfig config u) ''compilerOptions'') k = v" if "u k = Some v" for k u v
    using that by (simp add: mergeConfig_def get_def map_add_def)
  show ?thesis
  proof (intro exI conjI allI impI)
    show "readConfigFile ts fs (resolve (cwd ts) (configPath request)) = Inr config" by (rule c)
    show "fs1 (resolve (cwd ts) (configPath request))
          = Some (File (stringify ts (mergeConfig config (uo_options request))))" by (rule c)
  qed (simp_all add: f1 f2 f3)
qed

text \<open>
  C10 at the sample project: an update of \<^verbatim>\<open>strict\<close> alone keeps
  \<^verbatim>\<open>include\<close>, \<^verbatim>\<open>target\<close> and \<^verbatim>\<open>sourceMap\<close>.
\<close>

theorem C10_update_changes_only_named_options_witness:
  "fst (updateTsConfig sampleEnv sampleFs validUpdate)
     = Inr \<lparr> cu_success = True,
             cu_message = ''TypeScript configuration updated successfully'',
             updatedConfig = Some (mergeConfig sampleConfig (uo_options validUpdate)) \<rparr>
   \<and> snd (updateTsConfig sampleEnv sampleFs validUpdate) ''/proj/tsconfig.json''
       = Some (File (stringify sampleEnv (mergeConfig sampleConfig (uo_options validUpdate))))
   \<and> get (mergeConfig sampleConfig (uo_options validUpdate)) ''include'' = JArr [JStr ''src'']
   \<and> get (get (mergeConfig sampleConfig (uo_options validUpdate)) ''compilerOptions'') ''target''
       = JStr ''ES5''
   \<and> get (get (mergeConfig sampleConfig (uo_options validUpdate)) ''compilerOptions'') ''sourceMap''
       = JBool False
   \<and> get (get (mergeConfig sampleConfig (uo_options validUpdate)) ''compilerOptions'') ''strict''
       = JBool False"
proof -
  have p: "resolve (cwd sampleEnv) (configPath validUpdate) = ''/proj/tsconfig.json''"
    by (simp add: sampleEnv_fields validUpdate_def sample_config_path)
  have r: "readConfigFile sampleEnv sampleFs ''/proj/tsconfig.json'' = Inr sampleConfig"
    by (simp add: sampleEnv_fields sampleFs_lookup)
  have u: "uo_options validUpdate ''target'' = None" "uo_options validUpdate ''sourceMap'' = None"
    "uo_options validUpdate ''strict'' = Some (JBool False)"
    by (simp_all add: validUpdate_def)
  have g: "get sampleConfig ''include'' = JArr [JStr ''src'']"
    "get (get sampleConfig ''compilerOptions'') ''target'' = JStr ''ES5''"
    "get (get sampleConfig ''compilerOptions'') ''sourceMap'' = JBool False"
    by (simp_all add: sampleConfig_def get_def)
  from C10_update_changes_only_named_options [OF sample_valid_update]
  obtain config where c:
    "readConfigFile sampleEnv sampleFs (resolve (cwd sampleEnv) (configPath validUpdate)) = Inr config"
    "(sampleFs(''/proj/tsconfig.json'' \<mapsto> File ''{}'')) (resolve (cwd sampleEnv) (configPath validUpdate))
       = Some (File (stringify sampleEnv (mergeConfig config (uo_options validUpdate))))"
    "\<forall>k. k \<noteq> ''compilerOptions''
        \<longrightarrow> get (mergeConfig config (uo_options validUpdate)) k = get config k"
    "\<forall>k. uo_options validUpdate k = None
        \<longrightarrow> get (get (mergeConfig config (uo_options validUpdate)) ''compilerOptions'') k
              = get (get config ''compilerOptions'') k"
    "\<forall>k v. uo_options validUpdate k = Some v
        \<longrightarrow> get (get (mergeConfig config (uo_options validUpdate)) ''compilerOptions'') k = v"
    by auto
  from c(1) have cfg: "config = sampleConfig" unfolding p r by simp
  have "get (mergeConfig sampleConfig (uo_options validUpdate)) ''include'' = JArr [JStr ''src'']"
    using c(3) g(1) unfolding cfg by simp
  moreover have "get (get (mergeConfig sampleConfig (uo_options validUpdate)) ''compilerOptions'') ''target''
       = JStr ''ES5''"
    using c(4) u(1) g(2) unfolding cfg by simp
  moreover have "get (get (mergeConfig sampleConfig (uo_options validUpdate)) ''compilerOptions'') ''sourceMap''
       = JBool False"
    using c(4) u(2) g(3) unfolding cfg by simp
  moreover have "get (get (mergeConfig sampleConfig (uo_options validUpdate)) ''compilerOptions'') ''strict''
       = JBool False"
    using c(5) u(3) unfolding cfg by simp
  moreover have "snd (updateTsConfig sampleEnv sampleFs validUpdate) ''/proj/tsconfig.json''
       = Some (File (stringify sampleEnv (mergeConfig sampleConfig (uo_options validUpdate))))"
    using c(2) unfolding cfg p by (simp add: sample_valid_update)
  ultimately show ?thesis by (simp add: sample_valid_update)
qed

section \<open>The boundary of the entry points\<close>

text \<open>
  C8, as stated: no exception escapes \<^verbatim>\<open>compileFile\<close> or
  \<^verbatim>\<open>checkTypes\<close>. \<^verbatim>\<open>checkTypes\<close> on a path that does not exist raises to
  its caller.
\<close>

theorem C8_checkTypes_raises_counterexample:
  "checkTypes sampleEnv sampleFs
     \<lparr> tc_filePath = ''src/missing.ts'', strict = None, includeDeclarations = None \<rparr>
     = Inl (JsError ''File not found: /proj/src/missing.ts'')"
  by (simp add: checkTypes_def sampleEnv_fields sample_resolve fileExists_def sampleFs_lookup)

text \<open>
  C8, amended: \<^verbatim>\<open>compileFile\<close> turns the exception it throws itself, for a
  request that names neither a file nor a project, into a result with
  \<^verbatim>\<open>success: false\<close> and one error diagnostic carrying the message;
  \<^verbatim>\<open>checkTypes\<close> catches nothing, and raises \<^verbatim>\<open>File not found\<close> to its
  caller when the resolved target does not exist.
\<close>

theorem C8_boundary_of_compileFile_and_checkTypes:
  "(\<not> truthyString (filePath options) \<and> \<not> truthyString (projectPath options) \<longrightarrow>
      compileFile ts st options =
        (Inr \<lparr> success = False, output' = None, files = None,
                errors = Some [\<lparr> file' = ''unknown'', line = 0, column = 0,
                                 message = ''Either filePath or projectPath must be provided'',
                                 code = ''COMPILE_ERROR'', severity = Sev_error \<rparr>],
                duration = Some (elapsed ts) \<rparr>, st))
   \<and> (\<not> fileExists fs (resolve (cwd ts) (tc_filePath request)) \<longrightarrow>
        checkTypes ts fs request
          = Inl (JsError (''File not found: '' @ resolve (cwd ts) (tc_filePath request))))"
  by (cases "filePath options"; cases "projectPath options")
     (auto simp: compileFile_def caught_def checkTypes_def)

text \<open>
  C8 at the sample project.
\<close>

theorem C8_boundary_of_compileFile_and_checkTypes_witness:
  "compileFile sampleEnv (newCompiler sampleFs)
     \<lparr> filePath = None, projectPath = Some [], outputDir = None, sourceMap = None,
       watch = Some True \<rparr>
     = (Inr \<lparr> success = False, output' = None, files = None,
              errors = Some [\<lparr> file' = ''unknown'', line = 0, column = 0,
                               message = ''Either filePath or projectPath must be provided'',
                               code = ''COMPILE_ERROR'', severity = Sev_error \<rparr>],
              duration = Some 1 \<rparr>, newCompiler sampleFs)
   \<and> checkTypes sampleEnv sampleFs
       \<lparr> tc_filePath = ''src/missing.ts'', strict = Some True, includeDeclarations = None \<rparr>
     = Inl (JsError ''File not found: /proj/src/missing.ts'')"
  using C8_boundary_of_compileFile_and_checkTypes
    [where ts = sampleEnv and st = "newCompiler sampleFs" and fs = sampleFs
       and options = "\<lparr> filePath = None, projectPath = Some [], outputDir = None,
                        sourceMap = None, watch = Some True \<rparr>"
       and request = "\<lparr> tc_filePath = ''src/missing.ts'', strict = Some True,
                        includeDeclarations = None \<rparr>"]
  by (simp add: sampleEnv_fields sample_resolve fileExists_def sampleFs_lookup)

text \<open>
  A rejection of \<^verbatim>\<open>compileSingleFile\<close> or \<^verbatim>\<open>compileProject\<close> is a
  different matter: the \<^verbatim>\<open>try\<close> block of \<^verbatim>\<open>compileFile\<close> returns their
  promises without awaiting them, so the rejection settles the promise of
  \<^verbatim>\<open>compileFile\<close> itself. For a file that does not exist:
\<close>

lemma compileFile_rejection_passes:
  "fst (compileFile sampleEnv (newCompiler sampleFs)
     \<lparr> filePath = Some ''src/missing.ts'', projectPath = None, outputDir = None,
       sourceMap = None, watch = None \<rparr>)
     = Inl (JsError ''File not found: /proj/src/missing.ts'')"
  by (simp add: compileFile_def liftFs_def compileSingleFile_def resolveArgument_def
      newCompiler_def sampleEnv_fields sample_resolve fileExists_def sampleFs_lookup)

section \<open>The output path\<close>

text \<open>
  C9. For a file whose resolved path ends neither in \<^verbatim>\<open>.ts\<close> nor in
  \<^verbatim>\<open>.tsx\<close>, compiled with no output directory, \<^verbatim>\<open>getOutputPath\<close> returns
  the path itself, and \<^verbatim>\<open>compileSingleFile\<close> leaves the transpiled output in the
  source file (the directories above the file are directories and the write is not
  refused). With an output directory the output path is the directory joined with the
  base name, its extension replaced by \<^verbatim>\<open>.js\<close>, and that file name contains no
  slash.
\<close>

theorem C9_output_overwrites_source:
  assumes "filePath options = Some p"
      and "fs (resolve (cwd ts) p) = Some (File sourceCode)"
      and "\<not> truthyString (outputDir options)"
      and "\<not> endsWith (resolve (cwd ts) p) ''.ts''"
      and "\<not> endsWith (resolve (cwd ts) p) ''.tsx''"
      and "\<forall>a \<in> set (ancestors (dirname (resolve (cwd ts) p))). \<not> isRegularFile fs a"
      and "\<not> eacces ts (resolve (cwd ts) p)"
  shows "getOutputPath (resolve (cwd ts) p) (outputDir options) = resolve (cwd ts) p
         \<and> snd (compileSingleFile ts fs options) (resolve (cwd ts) p)
             = Some (File (outputText (transpileModule ts sourceCode
                  (compileSingleFile_compilerOptions ts fs options (resolve (cwd ts) p))
                  (resolve (cwd ts) p))))
         \<and> (dir \<noteq> [] \<longrightarrow>
               getOutputPath q (Some dir) = join dir (basename q (extname q) @ ''.js'')
               \<and> CHR ''/'' \<notin> set (basename q (extname q) @ ''.js''))"
proof -
  let ?fp = "resolve (cwd ts) p"
  let ?r = "transpileModule ts sourceCode (compileSingleFile_compilerOptions ts fs options ?fp) ?fp"
  have out: "getOutputPath ?fp (outputDir options) = ?fp"
    using assms(3-5) by (simp add: getOutputPath_no_outputDir replaceTsExtension_other)
  have ne: "?fp @ ''.map'' \<noteq> ?fp" by simp
  define files where "files = outputFiles ?r ?fp options"
  have ws: "snd (writeFiles (eacces ts) fs files) ?fp = Some (File (outputText ?r))"
    unfolding files_def outputFiles_def
    using writeFiles_source [where fs = fs and p = ?fp and deny = "eacces ts"
        and q = "?fp @ ''.map''", OF assms(2) assms(7) assms(6) ne]
    by simp
  have "snd (compileSingleFile ts fs options) = snd (writeFiles (eacces ts) fs files)"
    using assms(1,2) out unfolding files_def
    by (cases "writeFiles (eacces ts) fs (outputFiles ?r ?fp options)")
       (simp add: compileSingleFile_def resolveArgument_def fileExists_def readFile_def Let_def
         split: sum.splits)
  with ws have "snd (compileSingleFile ts fs options) ?fp = Some (File (outputText ?r))"
    by simp
  with out show ?thesis by (simp add: getOutputPath_def basename_extname_flat)
qed

text \<open>
  C9 at the sample project: compiling \<^verbatim>\<open>src/b.js\<close> overwrites it.
\<close>

theorem C9_output_overwrites_source_witness:
  "getOutputPath ''/proj/src/b.js'' None = ''/proj/src/b.js''
   \<and> snd (compileSingleFile sampleEnv sampleFs
        \<lparr> filePath = Some ''src/b.js'', projectPath = None, outputDir = None,
          sourceMap = None, watch = None \<rparr>) ''/proj/src/b.js''
       = Some (File ''/* js */ let y = 2;'')
   \<and> getOutputPath ''/proj/src/deep/a.ts'' (Some ''/out'') = ''/out/a.js''"
proof -
  let ?o = "\<lparr> filePath = Some ''src/b.js'', projectPath = None, outputDir = None,
             sourceMap = None, watch = None \<rparr>"
  have e: "\<not> endsWith ''/proj/src/b.js'' ''.ts''" "\<not> endsWith ''/proj/src/b.js'' ''.tsx''"
    by (simp_all add: endsWith_def isSuffixOf_def)
  have a: "\<forall>a \<in> set (ancestors (dirname ''/proj/src/b.js'')). \<not> isRegularFile sampleFs a"
    by (simp add: sample_dirname sample_ancestors isRegularFile_def sampleFs_lookup)
  have j: "join ''/out'' (basename ''/proj/src/deep/a.ts'' (extname ''/proj/src/deep/a.ts'') @ ''.js'')
             = ''/out/a.js''"
    by (simp add: path_defs)
  show ?thesis
    using C9_output_overwrites_source [where options = ?o and p = "''src/b.js''" and ts = sampleEnv
        and fs = sampleFs and sourceCode = "''let y = 2;''" and dir = "''/out''"
        and q = "''/proj/src/deep/a.ts''"] e a j
    by (simp add: sampleEnv_fields sample_resolve sampleFs_lookup)
qed

end
